theory Spec2Isabelle
  imports Complex_Main
begin

section \<open>Numbers: the double values the algebra computes with\<close>

text \<open>
  The fields of the structures are C++ doubles. The constructor from a between factor
  branches on \<^verbatim>\<open>std::isnan\<close>, and \<^verbatim>\<open>PoseWithDistance::norm\<close> divides by a value that
  can be zero, so the special values are part of the data: a double is a finite real, an
  infinity, or NaN. The special values follow the IEEE-754 rules. Finite arithmetic is
  exact real arithmetic: rounding, overflow of finite operands and the sign of zero are
  not represented (the one zero divides like +0).
\<close>

datatype double = Fin real | PInf | MInf | NaN

fun isnan :: "double \<Rightarrow> bool" where
  "isnan NaN = True"
| "isnan _ = False"

fun isfinite :: "double \<Rightarrow> bool" where
  "isfinite (Fin _) = True"
| "isfinite _ = False"

fun dneg :: "double \<Rightarrow> double" where
  "dneg (Fin a) = Fin (- a)"
| "dneg PInf = MInf"
| "dneg MInf = PInf"
| "dneg NaN = NaN"

fun dadd :: "double \<Rightarrow> double \<Rightarrow> double" where
  "dadd (Fin a) (Fin b) = Fin (a + b)"
| "dadd NaN _ = NaN"
| "dadd _ NaN = NaN"
| "dadd PInf MInf = NaN"
| "dadd MInf PInf = NaN"
| "dadd PInf _ = PInf"
| "dadd _ PInf = PInf"
| "dadd MInf _ = MInf"
| "dadd _ MInf = MInf"

definition dsub :: "double \<Rightarrow> double \<Rightarrow> double" where
  "dsub a b = dadd a (dneg b)"

fun dmul :: "double \<Rightarrow> double \<Rightarrow> double" where
  "dmul (Fin a) (Fin b) = Fin (a * b)"
| "dmul NaN _ = NaN"
| "dmul _ NaN = NaN"
| "dmul (Fin a) PInf = (if a = 0 then NaN else if 0 < a then PInf else MInf)"
| "dmul (Fin a) MInf = (if a = 0 then NaN else if 0 < a then MInf else PInf)"
| "dmul PInf (Fin b) = (if b = 0 then NaN else if 0 < b then PInf else MInf)"
| "dmul MInf (Fin b) = (if b = 0 then NaN else if 0 < b then MInf else PInf)"
| "dmul PInf PInf = PInf"
| "dmul PInf MInf = MInf"
| "dmul MInf PInf = MInf"
| "dmul MInf MInf = PInf"

fun ddiv :: "double \<Rightarrow> double \<Rightarrow> double" where
  "ddiv (Fin a) (Fin b) =
     (if b \<noteq> 0 then Fin (a / b)
      else if a = 0 then NaN else if 0 < a then PInf else MInf)"
| "ddiv NaN _ = NaN"
| "ddiv _ NaN = NaN"
| "ddiv (Fin a) PInf = Fin 0"
| "ddiv (Fin a) MInf = Fin 0"
| "ddiv PInf (Fin b) = (if 0 \<le> b then PInf else MInf)"
| "ddiv MInf (Fin b) = (if 0 \<le> b then MInf else PInf)"
| "ddiv PInf PInf = NaN"
| "ddiv PInf MInf = NaN"
| "ddiv MInf PInf = NaN"
| "ddiv MInf MInf = NaN"

fun dsqrt :: "double \<Rightarrow> double" where
  "dsqrt (Fin a) = (if a < 0 then NaN else Fin (sqrt a))"
| "dsqrt PInf = PInf"
| "dsqrt MInf = NaN"
| "dsqrt NaN = NaN"

fun dabs :: "double \<Rightarrow> double" where
  "dabs (Fin a) = Fin \<bar>a\<bar>"
| "dabs PInf = PInf"
| "dabs MInf = PInf"
| "dabs NaN = NaN"

text \<open>The comparison \<^verbatim>\<open>x <= y\<close> of doubles: false as soon as an operand is NaN.\<close>

fun dle :: "double \<Rightarrow> double \<Rightarrow> bool" where
  "dle NaN _ = False"
| "dle _ NaN = False"
| "dle (Fin a) (Fin b) = (a \<le> b)"
| "dle MInf _ = True"
| "dle _ PInf = True"
| "dle PInf _ = False"
| "dle _ MInf = False"

text \<open>
  A sum of doubles, the empty sum being 0. Addition in this model is associative and
  commutative, so the order in which the library accumulates a sum does not show.
\<close>

definition dsum :: "double list \<Rightarrow> double" where
  "dsum xs = foldr dadd xs (Fin 0)"

section \<open>Dense matrices\<close>

text \<open>
  \<^verbatim>\<open>gtsam::Matrix\<close> is a dynamically sized dense matrix of doubles; it is kept as the list
  of its rows. The operations below are the ones the source applies to it: product, sum,
  difference, transpose, a zero matrix, reading and assigning a block, and the trace.
  Their operands must agree in size, as the library requires.
\<close>

type_synonym mat = "double list list"

definition mat_of :: "nat \<Rightarrow> nat \<Rightarrow> (nat \<Rightarrow> nat \<Rightarrow> double) \<Rightarrow> mat" where
  "mat_of r c f = map (\<lambda>i. map (\<lambda>j. f i j) [0..<c]) [0..<r]"

definition rows :: "mat \<Rightarrow> nat" where
  "rows M = length M"

definition cols :: "mat \<Rightarrow> nat" where
  "cols M = (case M of [] \<Rightarrow> 0 | r # _ \<Rightarrow> length r)"

definition coeff :: "mat \<Rightarrow> nat \<Rightarrow> nat \<Rightarrow> double" where
  "coeff M i j = M ! i ! j"

definition wf_mat :: "nat \<Rightarrow> nat \<Rightarrow> mat \<Rightarrow> bool" where
  "wf_mat r c M \<longleftrightarrow> length M = r \<and> list_all (\<lambda>row. length row = c) M"

definition zero_mat :: "nat \<Rightarrow> nat \<Rightarrow> mat" where
  "zero_mat r c = mat_of r c (\<lambda>i j. Fin 0)"

definition identity_mat :: "nat \<Rightarrow> mat" where
  "identity_mat n = mat_of n n (\<lambda>i j. if i = j then Fin 1 else Fin 0)"

definition mmul :: "mat \<Rightarrow> mat \<Rightarrow> mat" where
  "mmul A B =
     mat_of (rows A) (cols B)
       (\<lambda>i j. dsum (map (\<lambda>k. dmul (coeff A i k) (coeff B k j)) [0..<cols A]))"

definition madd :: "mat \<Rightarrow> mat \<Rightarrow> mat" where
  "madd A B = mat_of (rows A) (cols A) (\<lambda>i j. dadd (coeff A i j) (coeff B i j))"

definition msub :: "mat \<Rightarrow> mat \<Rightarrow> mat" where
  "msub A B = mat_of (rows A) (cols A) (\<lambda>i j. dsub (coeff A i j) (coeff B i j))"

definition mtranspose :: "mat \<Rightarrow> mat" where
  "mtranspose M = mat_of (cols M) (rows M) (\<lambda>i j. coeff M j i)"

definition block :: "mat \<Rightarrow> nat \<Rightarrow> nat \<Rightarrow> nat \<Rightarrow> nat \<Rightarrow> mat" where
  "block M i0 j0 p q = mat_of p q (\<lambda>i j. coeff M (i0 + i) (j0 + j))"

definition set_block :: "mat \<Rightarrow> nat \<Rightarrow> nat \<Rightarrow> nat \<Rightarrow> nat \<Rightarrow> mat \<Rightarrow> mat" where
  "set_block M i0 j0 p q B =
     mat_of (rows M) (cols M)
       (\<lambda>i j. if i0 \<le> i \<and> i < i0 + p \<and> j0 \<le> j \<and> j < j0 + q
              then coeff B (i - i0) (j - j0) else coeff M i j)"

definition trace :: "mat \<Rightarrow> double" where
  "trace M = dsum (map (\<lambda>i. coeff M i i) [0..<rows M])"

text \<open>A vector as a one-row and as a one-column matrix, and the value of a 1x1 product.\<close>

definition row_vec :: "double list \<Rightarrow> mat" where
  "row_vec v = [v]"

definition col_vec :: "double list \<Rightarrow> mat" where
  "col_vec v = map (\<lambda>x. [x]) v"

definition scalar_of :: "mat \<Rightarrow> double" where
  "scalar_of M = coeff M 0 0"

section \<open>The pose type and the numerical library, as parameters\<close>

text \<open>
  The structures are templates over a pose type \<^verbatim>\<open>T\<close> (\<^verbatim>\<open>gtsam::Pose2\<close>, \<^verbatim>\<open>gtsam::Pose3\<close>),
  whose operations, and the matrix routines of the numerical library, are not part of the
  repository. They are the fields of one record: the dimensions read by \<^verbatim>\<open>getDim\<close>,
  \<^verbatim>\<open>getRotationDim\<close> and \<^verbatim>\<open>getTranslationDim\<close>, the default pose \<^verbatim>\<open>T()\<close>, composition,
  inversion and relative pose together with the Jacobians they write into their output
  arguments, the logarithm map, the norm of the translation part, the status of a Cholesky
  factorisation \<^verbatim>\<open>Eigen::LLT(M).info()\<close>, and \<^verbatim>\<open>gtsam::inverse\<close>.

  One more field belongs to the translation unit rather than to a library.
  \<^verbatim>\<open>PoseWithDistance::between\<close> calls \<^verbatim>\<open>abs\<close> unqualified on a double, and which function
  that names depends on the declarations the included headers bring into scope: the
  floating-point overload, or \<^verbatim>\<open>int abs(int)\<close> reached through a conversion of the
  argument. The field \<open>abs_call\<close> is the function the call resolves to.
\<close>

datatype ComputationInfo = Success | NumericalIssue

record 'p lib =
  dimension :: nat
  rotation_dimension :: nat
  translation_dimension :: nat
  identity :: 'p
  compose_J :: "'p \<Rightarrow> 'p \<Rightarrow> 'p \<times> mat \<times> mat"
  inverse_J :: "'p \<Rightarrow> 'p \<times> mat"
  between_J :: "'p \<Rightarrow> 'p \<Rightarrow> 'p \<times> mat \<times> mat"
  Logmap :: "'p \<Rightarrow> double list"
  translation_norm :: "'p \<Rightarrow> double"
  llt_info :: "mat \<Rightarrow> ComputationInfo"
  inverse_mat :: "mat \<Rightarrow> mat"
  abs_call :: "double \<Rightarrow> double"

definition getRotationDim :: "'p lib \<Rightarrow> nat" where
  "getRotationDim L = rotation_dimension L"

definition getTranslationDim :: "'p lib \<Rightarrow> nat" where
  "getTranslationDim L = translation_dimension L"

definition getDim :: "'p lib \<Rightarrow> nat" where
  "getDim L = dimension L"

section \<open>PoseWithCovariance\<close>

record 'p PoseWithCovariance =
  pose :: 'p
  covariance_matrix :: mat

text \<open>
  A prior factor carries the prior pose. A between factor carries the measured pose and a
  noise model; only a Gaussian noise model has a covariance, and the constructor's
  \<^verbatim>\<open>dynamic_pointer_cast\<close> yields a null pointer for any other, which it then dereferences.
\<close>

record 'p PriorFactor =
  prior :: 'p

datatype noiseModel = Gaussian mat | NotGaussian

record 'p BetweenFactor =
  measured :: 'p
  get_noiseModel :: noiseModel

definition PoseWithCovariance_default :: "'p lib \<Rightarrow> 'p PoseWithCovariance" where
  "PoseWithCovariance_default L =
     (let dim = getDim L; covar = zero_mat dim dim
      in \<lparr>pose = identity L, covariance_matrix = covar\<rparr>)"

definition PoseWithCovariance_basic :: "'p \<Rightarrow> mat \<Rightarrow> 'p PoseWithCovariance" where
  "PoseWithCovariance_basic pose_in matrix_in =
     \<lparr>pose = pose_in, covariance_matrix = matrix_in\<rparr>"

definition PoseWithCovariance_prior :: "'p lib \<Rightarrow> 'p PriorFactor \<Rightarrow> 'p PoseWithCovariance" where
  "PoseWithCovariance_prior L prior_factor =
     (let val = prior prior_factor; dim = getDim L; covar = zero_mat dim dim
      in \<lparr>pose = val, covariance_matrix = covar\<rparr>)"

definition PoseWithCovariance_between ::
  "'p lib \<Rightarrow> 'p BetweenFactor \<Rightarrow> 'p PoseWithCovariance option" where
  "PoseWithCovariance_between L between_factor =
     (case get_noiseModel between_factor of
        NotGaussian \<Rightarrow> None
      | Gaussian covar \<Rightarrow>
          (let dim = getDim L; r_dim = getRotationDim L; t_dim = getTranslationDim L;
               covar' =
                 (if isnan (trace (block covar 0 0 r_dim r_dim))
                  then set_block (zero_mat dim dim) r_dim r_dim t_dim t_dim
                         (block covar r_dim r_dim t_dim t_dim)
                  else covar)
           in Some \<lparr>pose = measured between_factor, covariance_matrix = covar'\<rparr>))"

definition compose ::
  "'p lib \<Rightarrow> 'p PoseWithCovariance \<Rightarrow> 'p PoseWithCovariance \<Rightarrow> 'p PoseWithCovariance" where
  "compose L this other =
     (case compose_J L (pose this) (pose other) of
        (p, Ha, Hb) \<Rightarrow>
          \<lparr>pose = p,
           covariance_matrix =
             madd (mmul (mmul Ha (covariance_matrix this)) (mtranspose Ha))
                  (mmul (mmul Hb (covariance_matrix other)) (mtranspose Hb))\<rparr>)"

definition inverse :: "'p lib \<Rightarrow> 'p PoseWithCovariance \<Rightarrow> 'p PoseWithCovariance" where
  "inverse L this =
     (case inverse_J L (pose this) of
        (p, Ha) \<Rightarrow>
          \<lparr>pose = p,
           covariance_matrix = mmul (mmul Ha (covariance_matrix this)) (mtranspose Ha)\<rparr>)"

text \<open>
  \<^verbatim>\<open>between\<close> is modelled together with the messages it sends to the logger. The only
  logging statement of the function is commented out in the source, so the list it returns
  is the empty one on every path; the second factorisation is computed and its status is
  not read.
\<close>

definition between_run ::
  "'p lib \<Rightarrow> 'p PoseWithCovariance \<Rightarrow> 'p PoseWithCovariance
     \<Rightarrow> 'p PoseWithCovariance \<times> string list" where
  "between_run L this other =
     (case between_J L (pose this) (pose other) of
        (p, Ha, Hb) \<Rightarrow>
          (let cov1 = msub (covariance_matrix other)
                        (mmul (mmul Ha (covariance_matrix this)) (mtranspose Ha));
               pos_semi_def = (llt_info L cov1 \<noteq> NumericalIssue)
           in if \<not> pos_semi_def
              then (case between_J L (pose other) (pose this) of
                      (p', Ha', Hb') \<Rightarrow>
                        (let cov2 = msub (covariance_matrix this)
                                      (mmul (mmul Ha' (covariance_matrix other)) (mtranspose Ha'));
                             lltCovar2 = llt_info L cov2
                         in (\<lparr>pose = p, covariance_matrix = cov2\<rparr>, [])))
              else (\<lparr>pose = p, covariance_matrix = cov1\<rparr>, [])))"

definition between ::
  "'p lib \<Rightarrow> 'p PoseWithCovariance \<Rightarrow> 'p PoseWithCovariance \<Rightarrow> 'p PoseWithCovariance" where
  "between L this other = fst (between_run L this other)"

definition norm_c :: "'p lib \<Rightarrow> 'p PoseWithCovariance \<Rightarrow> double" where
  "norm_c L this =
     (let log = Logmap L (pose this)
      in dsqrt (scalar_of
           (mmul (mmul (row_vec log) (inverse_mat L (covariance_matrix this))) (col_vec log))))"

section \<open>PoseWithDistance\<close>

record 'p PoseWithDistance =
  pose :: 'p
  distance :: double

definition PoseWithDistance_default :: "'p lib \<Rightarrow> 'p PoseWithDistance" where
  "PoseWithDistance_default L = \<lparr>pose = identity L, distance = Fin 0\<rparr>"

definition PoseWithDistance_basic :: "'p \<Rightarrow> double \<Rightarrow> 'p PoseWithDistance" where
  "PoseWithDistance_basic pose_in dist_in = \<lparr>pose = pose_in, distance = dist_in\<rparr>"

definition PoseWithDistance_prior :: "'p PriorFactor \<Rightarrow> 'p PoseWithDistance" where
  "PoseWithDistance_prior prior_factor =
     (let val = prior prior_factor in \<lparr>pose = val, distance = Fin 0\<rparr>)"



definition between_d ::
  "'p lib \<Rightarrow> 'p PoseWithDistance \<Rightarrow> 'p PoseWithDistance \<Rightarrow> 'p PoseWithDistance" where
  "between_d L this other =
     \<lparr>pose = fst (between_J L (pose this) (pose other)),
      distance = abs_call L (dsub (distance other) (distance this))\<rparr>"

definition norm_d :: "'p lib \<Rightarrow> 'p PoseWithDistance \<Rightarrow> double" where
  "norm_d L this =
     (let log = Logmap L (pose this)
      in ddiv (dsqrt (scalar_of (mmul (row_vec log) (col_vec log)))) (distance this))"

section \<open>Properties of the pose type and of matrices that the claims speak of\<close>

text \<open>
  The pose type is a group under composition, and the relative pose from \<open>a\<close> to \<open>b\<close> is
  \<open>a\<inverse> \<cdot> b\<close>: the laws of the library's pose types that the algebraic claims rest on.
\<close>

definition group_laws :: "'p lib \<Rightarrow> bool" where
  "group_laws L \<longleftrightarrow>
     (\<forall>a b c. fst (compose_J L (fst (compose_J L a b)) c)
              = fst (compose_J L a (fst (compose_J L b c))))
   \<and> (\<forall>a. fst (compose_J L (identity L) a) = a)
   \<and> (\<forall>a. fst (compose_J L (fst (inverse_J L a)) a) = identity L)
   \<and> (\<forall>a. fst (compose_J L a (fst (inverse_J L a))) = identity L)
   \<and> (\<forall>a b. fst (between_J L a b) = fst (compose_J L (fst (inverse_J L a)) b))"

text \<open>The Jacobians the library returns are square matrices of the pose dimension.\<close>

definition jacobians_wf :: "'p lib \<Rightarrow> bool" where
  "jacobians_wf L \<longleftrightarrow>
     (\<forall>a b. wf_mat (dimension L) (dimension L) (fst (snd (compose_J L a b)))
          \<and> wf_mat (dimension L) (dimension L) (snd (snd (compose_J L a b))))
   \<and> (\<forall>a. wf_mat (dimension L) (dimension L) (snd (inverse_J L a)))
   \<and> (\<forall>a b. wf_mat (dimension L) (dimension L) (fst (snd (between_J L a b)))
          \<and> wf_mat (dimension L) (dimension L) (snd (snd (between_J L a b))))"

definition finite_mat :: "mat \<Rightarrow> bool" where
  "finite_mat M \<longleftrightarrow> list_all (list_all isfinite) M"

fun real_of :: "double \<Rightarrow> real" where
  "real_of (Fin a) = a"
| "real_of _ = 0"

text \<open>
  Positive semi-definite, for a square matrix of finite entries: symmetric, with a
  quadratic form that is nowhere negative.
\<close>

definition quad_form :: "nat \<Rightarrow> mat \<Rightarrow> (nat \<Rightarrow> real) \<Rightarrow> real" where
  "quad_form n M x = (\<Sum>i<n. \<Sum>j<n. x i * real_of (coeff M i j) * x j)"

definition pos_semi_definite :: "nat \<Rightarrow> mat \<Rightarrow> bool" where
  "pos_semi_definite n M \<longleftrightarrow>
     wf_mat n n M \<and> finite_mat M
   \<and> (\<forall>i<n. \<forall>j<n. coeff M i j = coeff M j i)
   \<and> (\<forall>x. 0 \<le> quad_form n M x)"

section \<open>A concrete pose type: rigid motions of the plane\<close>

text \<open>
  Concrete inputs need a concrete pose type. A planar rigid motion is an angle and a
  translation \<open>(\<theta>, x, y)\<close>; the tangent coordinates are ordered rotation first, the layout
  the constructor from a between factor assumes, so the rotation dimension is 1 and the
  translation dimension 2. The Jacobians are the adjoint maps of the right-perturbation
  convention: of \<open>a \<cdot> b\<close> with respect to \<open>a\<close> it is \<open>Ad (b\<inverse>)\<close> and with respect to \<open>b\<close>
  the identity, of \<open>a\<inverse>\<close> it is \<open>- Ad a\<close>, of the relative pose \<open>r = a\<inverse> \<cdot> b\<close> with respect to
  \<open>a\<close> it is \<open>- Ad (r\<inverse>)\<close>.
\<close>

type_synonym planar = "real \<times> real \<times> real"

definition planar_compose :: "planar \<Rightarrow> planar \<Rightarrow> planar" where
  "planar_compose p q =
     (case p of (t1, x1, y1) \<Rightarrow> case q of (t2, x2, y2) \<Rightarrow>
        (t1 + t2, x1 + cos t1 * x2 - sin t1 * y2, y1 + sin t1 * x2 + cos t1 * y2))"

definition planar_inverse :: "planar \<Rightarrow> planar" where
  "planar_inverse p =
     (case p of (t, x, y) \<Rightarrow> (- t, - (cos t * x + sin t * y), sin t * x - cos t * y))"

definition planar_Adjoint :: "planar \<Rightarrow> mat" where
  "planar_Adjoint p =
     (case p of (t, x, y) \<Rightarrow>
        [[Fin 1, Fin 0, Fin 0],
         [Fin y, Fin (cos t), Fin (- sin t)],
         [Fin (- x), Fin (sin t), Fin (cos t)]])"

definition mneg :: "mat \<Rightarrow> mat" where
  "mneg M = map (map dneg) M"

definition planar_Logmap :: "planar \<Rightarrow> double list" where
  "planar_Logmap p =
     (case p of (t, x, y) \<Rightarrow>
        if t = 0 then [Fin t, Fin x, Fin y]
        else (let a = t * sin t / (2 * (1 - cos t)); b = t / 2
              in [Fin t, Fin (a * x + b * y), Fin (a * y - b * x)]))"

text \<open>
  A Cholesky factorisation that works column by column on the lower triangle and reports
  a numerical issue at the first pivot that is not positive.
\<close>

primrec llt_loop :: "mat \<Rightarrow> nat list \<Rightarrow> double list list \<Rightarrow> bool" where
  "llt_loop M [] Lc = True"
| "llt_loop M (k # ks) Lc =
     (let x = dsub (coeff M k k) (dsum (map (\<lambda>c. dmul (c ! k) (c ! k)) Lc))
      in if dle x (Fin 0) then False
         else (let d = dsqrt x;
                   col = map (\<lambda>i. if i < k then Fin 0 else if i = k then d
                                   else ddiv (dsub (coeff M i k)
                                                (dsum (map (\<lambda>c. dmul (c ! i) (c ! k)) Lc))) d)
                             [0..<rows M]
               in llt_loop M ks (Lc @ [col])))"

definition llt_model :: "mat \<Rightarrow> ComputationInfo" where
  "llt_model M = (if llt_loop M [0..<rows M] [] then Success else NumericalIssue)"

text \<open>The inverse of a 3x3 matrix by cofactors; a matrix of another size is returned as it is.\<close>

definition inverse3 :: "mat \<Rightarrow> mat" where
  "inverse3 M =
     (case M of
        [[a, b, c], [d, e, f], [g, h, i]] \<Rightarrow>
          (let A = dsub (dmul e i) (dmul f h);
               B = dsub (dmul f g) (dmul d i);
               C = dsub (dmul d h) (dmul e g);
               det = dadd (dadd (dmul a A) (dmul b B)) (dmul c C)
           in [[ddiv A det, ddiv (dsub (dmul c h) (dmul b i)) det,
                  ddiv (dsub (dmul b f) (dmul c e)) det],
               [ddiv B det, ddiv (dsub (dmul a i) (dmul c g)) det,
                  ddiv (dsub (dmul c d) (dmul a f)) det],
               [ddiv C det, ddiv (dsub (dmul b g) (dmul a h)) det,
                  ddiv (dsub (dmul a e) (dmul b d)) det]])
      | _ \<Rightarrow> M)"

definition planar :: "planar lib" where
  "planar =
     \<lparr>dimension = 3, rotation_dimension = 1, translation_dimension = 2,
      identity = (0, 0, 0),
      compose_J = (\<lambda>p q. (planar_compose p q, planar_Adjoint (planar_inverse q), identity_mat 3)),
      inverse_J = (\<lambda>p. (planar_inverse p, mneg (planar_Adjoint p))),
      between_J = (\<lambda>p q. (let r = planar_compose (planar_inverse p) q
                           in (r, mneg (planar_Adjoint (planar_inverse r)), identity_mat 3))),
      Logmap = planar_Logmap,
      translation_norm = (\<lambda>p. case p of (t, x, y) \<Rightarrow> Fin (sqrt (x * x + y * y))),
      llt_info = llt_model,
      inverse_mat = inverse3,
      abs_call = dabs\<rparr>"

section \<open>The formulas of the claims\<close>

text \<open>
  Entry \<open>(i, j)\<close> of \<open>J \<cdot> C \<cdot> J\<^sup>t\<close> for square matrices of size \<open>n\<close>, written out as the
  double sum over the entries.
\<close>

definition propagated :: "nat \<Rightarrow> mat \<Rightarrow> mat \<Rightarrow> nat \<Rightarrow> nat \<Rightarrow> double" where
  "propagated n J C i j =
     dsum (map (\<lambda>l. dmul (dsum (map (\<lambda>k. dmul (coeff J i k) (coeff C k l)) [0..<n]))
                         (coeff J j l)) [0..<n])"

text \<open>
  The Mahalanobis norm of a vector \<open>v\<close> of length \<open>n\<close> against the inverse covariance:
  \<open>sqrt (v\<^sup>t \<cdot> C\<inverse> \<cdot> v)\<close>, written out over the entries; and the Euclidean norm.
\<close>

definition mahalanobis :: "nat \<Rightarrow> double list \<Rightarrow> mat \<Rightarrow> double" where
  "mahalanobis n v Cinv =
     dsqrt (dsum (map (\<lambda>j. dmul (dsum (map (\<lambda>i. dmul (v ! i) (coeff Cinv i j)) [0..<n]))
                                (v ! j)) [0..<n]))"

definition euclidean_norm :: "double list \<Rightarrow> double" where
  "euclidean_norm v = dsqrt (dsum (map (\<lambda>x. dmul x x) v))"

text \<open>\<open>M\<close> is the inverse of the square matrix \<open>C\<close> of size \<open>n\<close>.\<close>

definition is_inverse :: "nat \<Rightarrow> mat \<Rightarrow> mat \<Rightarrow> bool" where
  "is_inverse n M C \<longleftrightarrow>
     wf_mat n n M \<and> wf_mat n n C \<and> mmul M C = identity_mat n \<and> mmul C M = identity_mat n"

text \<open>The logarithm map returns a vector of the pose dimension.\<close>

definition logmap_wf :: "'p lib \<Rightarrow> bool" where
  "logmap_wf L \<longleftrightarrow> (\<forall>p. length (Logmap L p) = dimension L)"


text \<open>
  The other resolution, \<^verbatim>\<open>int abs(int)\<close>: the double is converted to \<^verbatim>\<open>int\<close>, which
  truncates toward zero, and the absolute value of that integer is converted back. The
  conversion is undefined for NaN, for the infinities and outside the range of a 32-bit
  \<^verbatim>\<open>int\<close>; there \<open>int_abs\<close> is left as the floating absolute value.
\<close>

definition int_abs :: "double \<Rightarrow> double" where
  "int_abs x =
     (case x of
        Fin a \<Rightarrow> if \<bar>a\<bar> < 2147483648 then Fin (of_int \<lfloor>\<bar>a\<bar>\<rfloor>) else Fin \<bar>a\<bar>
      | _ \<Rightarrow> dabs x)"

text \<open>
  The relative covariance \<open>Cov\<^sub>B - J \<cdot> Cov\<^sub>A \<cdot> J\<^sup>t\<close>, with \<open>J\<close> the Jacobian of the relative
  pose from \<open>A.pose\<close> to \<open>B.pose\<close> with respect to \<open>A.pose\<close>.
\<close>

definition relative_covariance ::
  "'p lib \<Rightarrow> 'p PoseWithCovariance \<Rightarrow> 'p PoseWithCovariance \<Rightarrow> mat" where
  "relative_covariance L A B =
     (let J = fst (snd (between_J L (PoseWithCovariance.pose A) (PoseWithCovariance.pose B)))
      in msub (covariance_matrix B) (mmul (mmul J (covariance_matrix A)) (mtranspose J)))"

text \<open>
  \<open>between\<close> as the specification words it, to be compared with \<open>between_run\<close>: when the
  factorisation of the relative covariance fails, the result is the relative transform
  computed in the opposite direction and then inverted (pose and covariance), and a
  warning is raised when the covariance of that fallback fails the factorisation too.
\<close>

definition between_as_specified ::
  "'p lib \<Rightarrow> 'p PoseWithCovariance \<Rightarrow> 'p PoseWithCovariance
     \<Rightarrow> 'p PoseWithCovariance \<times> string list" where
  "between_as_specified L A B =
     (let direct = PoseWithCovariance_basic
                     (fst (between_J L (PoseWithCovariance.pose A) (PoseWithCovariance.pose B)))
                     (relative_covariance L A B)
      in if llt_info L (covariance_matrix direct) \<noteq> NumericalIssue then (direct, [])
         else (let opposite = PoseWithCovariance_basic
                     (fst (between_J L (PoseWithCovariance.pose B) (PoseWithCovariance.pose A)))
                     (relative_covariance L B A);
                   fallback = inverse L opposite
               in (fallback,
                   if llt_info L (covariance_matrix fallback) = NumericalIssue
                   then [''Warning: Covariance matrix between two poses not PSD'']
                   else [])))"

text \<open>The Jacobians the library returns have finite entries.\<close>

definition jacobians_finite :: "'p lib \<Rightarrow> bool" where
  "jacobians_finite L \<longleftrightarrow>
     (\<forall>a b. finite_mat (fst (snd (compose_J L a b))) \<and> finite_mat (snd (snd (compose_J L a b))))
   \<and> (\<forall>a. finite_mat (snd (inverse_J L a)))
   \<and> (\<forall>a b. finite_mat (fst (snd (between_J L a b))) \<and> finite_mat (snd (snd (between_J L a b))))"

section \<open>Matrices: sizes and entries\<close>

lemma length_mat_of [simp]: "length (mat_of r c f) = r"
  by (simp add: mat_of_def)

lemma rows_mat_of [simp]: "rows (mat_of r c f) = r"
  by (simp add: rows_def)

lemma cols_mat_of [simp]: "0 < r \<Longrightarrow> cols (mat_of r c f) = c"
  by (simp add: cols_def mat_of_def upt_conv_Cons)

lemma coeff_mat_of [simp]: "i < r \<Longrightarrow> j < c \<Longrightarrow> coeff (mat_of r c f) i j = f i j"
  by (simp add: coeff_def mat_of_def)

lemma wf_mat_mat_of [simp]: "wf_mat r c (mat_of r c f)"
  by (simp add: wf_mat_def mat_of_def list_all_iff)

lemma wf_mat_rows: "wf_mat r c M \<Longrightarrow> rows M = r"
  by (simp add: wf_mat_def rows_def)

lemma wf_mat_cols: "wf_mat r c M \<Longrightarrow> 0 < r \<Longrightarrow> cols M = c"
  by (cases M) (auto simp: wf_mat_def cols_def)

lemma wf_mat_eqI:
  assumes "wf_mat r c A" "wf_mat r c B"
    and "\<And>i j. i < r \<Longrightarrow> j < c \<Longrightarrow> coeff A i j = coeff B i j"
  shows "A = B"
proof (rule nth_equalityI)
  show "length A = length B" using assms by (simp add: wf_mat_def)
next
  fix i assume i: "i < length A"
  then have la: "length (A ! i) = c" and lb: "length (B ! i) = c"
    using assms(1,2) by (auto simp: wf_mat_def list_all_length)
  show "A ! i = B ! i"
  proof (rule nth_equalityI)
    show "length (A ! i) = length (B ! i)" using la lb by simp
  next
    fix j assume "j < length (A ! i)"
    then show "A ! i ! j = B ! i ! j"
      using assms(3)[of i j] i la assms(1) by (simp add: coeff_def wf_mat_def)
  qed
qed

lemma wf_mmul: "wf_mat r k A \<Longrightarrow> wf_mat k c B \<Longrightarrow> 0 < k \<Longrightarrow> wf_mat r c (mmul A B)"
  by (simp add: mmul_def wf_mat_rows wf_mat_cols)

lemma coeff_mmul:
  "wf_mat r k A \<Longrightarrow> wf_mat k c B \<Longrightarrow> 0 < r \<Longrightarrow> 0 < k \<Longrightarrow> i < r \<Longrightarrow> j < c \<Longrightarrow>
   coeff (mmul A B) i j = dsum (map (\<lambda>l. dmul (coeff A i l) (coeff B l j)) [0..<k])"
  by (simp add: mmul_def wf_mat_rows wf_mat_cols)

lemma wf_mtranspose: "wf_mat r c M \<Longrightarrow> 0 < r \<Longrightarrow> wf_mat c r (mtranspose M)"
  by (simp add: mtranspose_def wf_mat_rows wf_mat_cols)

lemma coeff_mtranspose:
  "wf_mat r c M \<Longrightarrow> 0 < r \<Longrightarrow> i < c \<Longrightarrow> j < r \<Longrightarrow> coeff (mtranspose M) i j = coeff M j i"
  by (simp add: mtranspose_def wf_mat_rows wf_mat_cols)

lemma wf_madd: "wf_mat r c A \<Longrightarrow> 0 < r \<Longrightarrow> wf_mat r c (madd A B)"
  by (simp add: madd_def wf_mat_rows wf_mat_cols)

lemma coeff_madd:
  "wf_mat r c A \<Longrightarrow> 0 < r \<Longrightarrow> i < r \<Longrightarrow> j < c \<Longrightarrow>
   coeff (madd A B) i j = dadd (coeff A i j) (coeff B i j)"
  by (simp add: madd_def wf_mat_rows wf_mat_cols)

lemma wf_msub: "wf_mat r c A \<Longrightarrow> 0 < r \<Longrightarrow> wf_mat r c (msub A B)"
  by (simp add: msub_def wf_mat_rows wf_mat_cols)

lemma coeff_msub:
  "wf_mat r c A \<Longrightarrow> 0 < r \<Longrightarrow> i < r \<Longrightarrow> j < c \<Longrightarrow>
   coeff (msub A B) i j = dsub (coeff A i j) (coeff B i j)"
  by (simp add: msub_def wf_mat_rows wf_mat_cols)

lemma wf_sandwich:
  assumes "wf_mat n n J" "wf_mat n n C" "0 < n"
  shows "wf_mat n n (mmul (mmul J C) (mtranspose J))"
  using assms by (intro wf_mmul[where k=n] wf_mtranspose) simp_all

lemma coeff_sandwich:
  assumes "wf_mat n n J" "wf_mat n n C" "0 < n" "i < n" "j < n"
  shows "coeff (mmul (mmul J C) (mtranspose J)) i j = propagated n J C i j"
proof -
  have "coeff (mmul (mmul J C) (mtranspose J)) i j
        = dsum (map (\<lambda>l. dmul (coeff (mmul J C) i l) (coeff (mtranspose J) l j)) [0..<n])"
    using assms
    by (intro coeff_mmul[where r=n and k=n and c=n] wf_mmul[where k=n] wf_mtranspose) simp_all
  also have "\<dots> = propagated n J C i j"
    unfolding propagated_def
    using assms
    by (intro arg_cong[where f=dsum] map_cong refl)
       (simp add: coeff_mmul[where r=n and k=n and c=n] coeff_mtranspose[where r=n and c=n])
  finally show ?thesis .
qed

section \<open>The planar pose type satisfies the laws\<close>

lemma upt3: "[0..<3] = [0, 1, 2]"
  by (simp add: upt_conv_Cons)

lemma identity_mat_3:
  "identity_mat 3 = [[Fin 1, Fin 0, Fin 0], [Fin 0, Fin 1, Fin 0], [Fin 0, Fin 0, Fin 1]]"
  by (simp add: identity_mat_def mat_of_def upt3)

lemma zero_mat_3:
  "zero_mat 3 3 = [[Fin 0, Fin 0, Fin 0], [Fin 0, Fin 0, Fin 0], [Fin 0, Fin 0, Fin 0]]"
  by (simp add: zero_mat_def mat_of_def upt3)

lemma planar_fields [simp]:
  "dimension planar = 3" "rotation_dimension planar = 1" "translation_dimension planar = 2"
  "identity planar = (0, 0, 0)"
  "compose_J planar p q = (planar_compose p q, planar_Adjoint (planar_inverse q), identity_mat 3)"
  "inverse_J planar p = (planar_inverse p, mneg (planar_Adjoint p))"
  "between_J planar p q =
     (planar_compose (planar_inverse p) q,
      mneg (planar_Adjoint (planar_inverse (planar_compose (planar_inverse p) q))),
      identity_mat 3)"
  "Logmap planar = planar_Logmap"
  "llt_info planar = llt_model"
  "inverse_mat planar = inverse3"
  by (simp_all add: planar_def Let_def)

lemma planar_translation_norm [simp]:
  "translation_norm planar (t, x, y) = Fin (sqrt (x * x + y * y))"
  by (simp add: planar_def)

lemma wf_planar_Adjoint: "wf_mat 3 3 (planar_Adjoint p)"
  by (cases p) (simp add: planar_Adjoint_def wf_mat_def)

lemma wf_mneg: "wf_mat r c M \<Longrightarrow> wf_mat r c (mneg M)"
  by (simp add: wf_mat_def mneg_def list_all_iff)

lemma wf_identity_mat: "wf_mat n n (identity_mat n)"
  by (simp add: identity_mat_def)

lemma jacobians_wf_planar: "jacobians_wf planar"
  by (simp add: jacobians_wf_def wf_planar_Adjoint wf_mneg wf_identity_mat)

lemma planar_assoc:
  "planar_compose (planar_compose a b) c = planar_compose a (planar_compose b c)"
  by (cases a; cases b; cases c) (simp add: planar_compose_def cos_add sin_add algebra_simps)

lemma planar_left_id: "planar_compose (0, 0, 0) a = a"
  by (cases a) (simp add: planar_compose_def)

lemma planar_left_inv: "planar_compose (planar_inverse a) a = (0, 0, 0)"
  by (cases a) (simp add: planar_compose_def planar_inverse_def algebra_simps)

lemma planar_right_inv: "planar_compose a (planar_inverse a) = (0, 0, 0)"
proof -
  obtain t x y where a: "a = (t, x, y)" by (cases a) auto
  define c s where "c = cos t" and "s = sin t"
  have u: "c * c + s * s = 1" unfolding c_def s_def by (rule sin_cos_squared_add3)
  have "x + c * (- (c * x + s * y)) - s * (s * x - c * y) = x * (1 - (c * c + s * s))"
    by algebra
  moreover have "y + s * (- (c * x + s * y)) + c * (s * x - c * y) = y * (1 - (c * c + s * s))"
    by algebra
  ultimately have "x + c * (- (c * x + s * y)) - s * (s * x - c * y) = 0"
    and "y + s * (- (c * x + s * y)) + c * (s * x - c * y) = 0"
    by (simp_all only: u diff_self mult_zero_right)
  then show ?thesis
    unfolding a planar_compose_def planar_inverse_def c_def s_def by simp
qed

lemma group_laws_planar: "group_laws planar"
  by (simp add: group_laws_def planar_assoc planar_left_id planar_left_inv planar_right_inv)

lemma PoseWithCovariance_basic_sel [simp]:
  "PoseWithCovariance.pose (PoseWithCovariance_basic p M) = p"
  "covariance_matrix (PoseWithCovariance_basic p M) = M"
  by (simp_all add: PoseWithCovariance_basic_def)

section \<open>PoseWithCovariance: compose\<close>

text \<open>
  Claim C1. For every pair of PoseWithCovariance values \<open>A\<close> and \<open>B\<close> (covariances of the
  pose dimension), \<open>compose A B\<close> has the pose \<open>A.pose \<cdot> B.pose\<close> the library returns, and
  entry \<open>(i, j)\<close> of its covariance is the sum of the entries \<open>(i, j)\<close> of
  \<open>J\<^sub>A \<cdot> Cov\<^sub>A \<cdot> J\<^sub>A\<^sup>t\<close> and \<open>J\<^sub>B \<cdot> Cov\<^sub>B \<cdot> J\<^sub>B\<^sup>t\<close>, with \<open>J\<^sub>A\<close>, \<open>J\<^sub>B\<close> the Jacobians the
  library's composition returns at \<open>A.pose\<close> and \<open>B.pose\<close>.
\<close>

theorem compose_propagates_covariance:
  assumes "jacobians_wf L" "0 < dimension L"
    and "wf_mat (dimension L) (dimension L) (covariance_matrix A)"
    and "wf_mat (dimension L) (dimension L) (covariance_matrix B)"
    and "compose_J L (PoseWithCovariance.pose A) (PoseWithCovariance.pose B) = (p, J_A, J_B)"
  shows "PoseWithCovariance.pose (compose L A B) = p
       \<and> wf_mat (dimension L) (dimension L) (covariance_matrix (compose L A B))
       \<and> (\<forall>i<dimension L. \<forall>j<dimension L.
            coeff (covariance_matrix (compose L A B)) i j
            = dadd (propagated (dimension L) J_A (covariance_matrix A) i j)
                   (propagated (dimension L) J_B (covariance_matrix B) i j))"
proof -
  let ?n = "dimension L"
  have "wf_mat ?n ?n (fst (snd (compose_J L (PoseWithCovariance.pose A) (PoseWithCovariance.pose B))))"
       "wf_mat ?n ?n (snd (snd (compose_J L (PoseWithCovariance.pose A) (PoseWithCovariance.pose B))))"
    using assms(1) unfolding jacobians_wf_def by blast+
  then have Ha: "wf_mat ?n ?n J_A" and Hb: "wf_mat ?n ?n J_B"
    by (simp_all add: assms(5))
  let ?SA = "mmul (mmul J_A (covariance_matrix A)) (mtranspose J_A)"
  let ?SB = "mmul (mmul J_B (covariance_matrix B)) (mtranspose J_B)"
  have cov: "covariance_matrix (compose L A B) = madd ?SA ?SB"
    and po: "PoseWithCovariance.pose (compose L A B) = p"
    by (simp_all add: compose_def assms(5))
  have wA: "wf_mat ?n ?n ?SA" and wB: "wf_mat ?n ?n ?SB"
    using Ha Hb assms(2-4) by (simp_all only: wf_sandwich)
  have w: "wf_mat ?n ?n (madd ?SA ?SB)"
    using wA assms(2) by (rule wf_madd)
  have e: "coeff (madd ?SA ?SB) i j
         = dadd (propagated ?n J_A (covariance_matrix A) i j)
                (propagated ?n J_B (covariance_matrix B) i j)" if "i < ?n" "j < ?n" for i j
  proof -
    have "coeff (madd ?SA ?SB) i j = dadd (coeff ?SA i j) (coeff ?SB i j)"
      using wA assms(2) that by (rule coeff_madd)
    also have "coeff ?SA i j = propagated ?n J_A (covariance_matrix A) i j"
      using Ha assms(3,2) that by (rule coeff_sandwich)
    also have "coeff ?SB i j = propagated ?n J_B (covariance_matrix B) i j"
      using Hb assms(4,2) that by (rule coeff_sandwich)
    finally show ?thesis .
  qed
  show ?thesis
    unfolding cov po using w e by blast
qed

theorem compose_propagates_covariance_witness:
  "jacobians_wf planar \<and> 0 < dimension planar
   \<and> wf_mat (dimension planar) (dimension planar)
        (covariance_matrix (PoseWithCovariance_basic ((0, 1, 0) :: planar) (identity_mat 3)))
   \<and> wf_mat (dimension planar) (dimension planar)
        (covariance_matrix (PoseWithCovariance_basic ((0, 0, 2) :: planar) (identity_mat 3)))
   \<and> PoseWithCovariance.pose
        (compose planar (PoseWithCovariance_basic (0, 1, 0) (identity_mat 3))
                        (PoseWithCovariance_basic (0, 0, 2) (identity_mat 3))) = (0, 1, 2)
   \<and> coeff (covariance_matrix
        (compose planar (PoseWithCovariance_basic (0, 1, 0) (identity_mat 3))
                        (PoseWithCovariance_basic (0, 0, 2) (identity_mat 3)))) 1 1
     = dadd (propagated 3 [[Fin 1, Fin 0, Fin 0], [Fin (- 2), Fin 1, Fin 0], [Fin 0, Fin 0, Fin 1]]
               (identity_mat 3) 1 1)
            (propagated 3 (identity_mat 3) (identity_mat 3) 1 1)
   \<and> coeff (covariance_matrix
        (compose planar (PoseWithCovariance_basic (0, 1, 0) (identity_mat 3))
                        (PoseWithCovariance_basic (0, 0, 2) (identity_mat 3)))) 1 1 = Fin 6"
proof -
  let ?A = "PoseWithCovariance_basic (0, 1, 0) (identity_mat 3) :: planar PoseWithCovariance"
  let ?B = "PoseWithCovariance_basic (0, 0, 2) (identity_mat 3) :: planar PoseWithCovariance"
  let ?J = "[[Fin 1, Fin 0, Fin 0], [Fin (- 2), Fin 1, Fin 0], [Fin 0, Fin 0, Fin 1]]"
  have h1: "jacobians_wf planar" by (rule jacobians_wf_planar)
  have h2: "0 < dimension planar" by simp
  have h3: "wf_mat (dimension planar) (dimension planar) (covariance_matrix ?A)"
    by (simp add: wf_identity_mat)
  have h4: "wf_mat (dimension planar) (dimension planar) (covariance_matrix ?B)"
    by (simp add: wf_identity_mat)
  have h5: "compose_J planar (PoseWithCovariance.pose ?A) (PoseWithCovariance.pose ?B)
            = ((0, 1, 2), ?J, identity_mat 3)"
    by (simp add: planar_compose_def planar_inverse_def planar_Adjoint_def)
  have v: "dadd (propagated 3 ?J (identity_mat 3) 1 1)
                (propagated 3 (identity_mat 3) (identity_mat 3) 1 1) = Fin 6"
    by (simp add: propagated_def identity_mat_3 upt3 coeff_def dsum_def)
  have i: "(1::nat) < dimension planar" by simp
  note t = compose_propagates_covariance[OF h1 h2 h3 h4 h5]
  from t have e: "coeff (covariance_matrix (compose planar ?A ?B)) 1 1
      = dadd (propagated 3 ?J (identity_mat 3) 1 1)
             (propagated 3 (identity_mat 3) (identity_mat 3) 1 1)"
    using i by (metis PoseWithCovariance_basic_sel(2) planar_fields(1))
  from t have p: "PoseWithCovariance.pose (compose planar ?A ?B) = (0, 1, 2)" by blast
  show ?thesis
    using h1 h2 h3 h4 p e v by (simp only: simp_thms)
qed

section \<open>PoseWithCovariance: the pose of a result, and between after compose\<close>

lemma pose_compose:
  "PoseWithCovariance.pose (compose L A B)
   = fst (compose_J L (PoseWithCovariance.pose A) (PoseWithCovariance.pose B))"
  by (simp add: compose_def split: prod.splits)

lemma pose_inverse:
  "PoseWithCovariance.pose (inverse L A) = fst (inverse_J L (PoseWithCovariance.pose A))"
  by (simp add: inverse_def split: prod.splits)

lemma pose_between:
  "PoseWithCovariance.pose (between L A B)
   = fst (between_J L (PoseWithCovariance.pose A) (PoseWithCovariance.pose B))"
  by (simp add: between_def between_run_def Let_def split: prod.splits)

lemma between_run_silent: "snd (between_run L A B) = []"
  by (simp add: between_run_def Let_def split: prod.splits)

text \<open>
  Claim C6. For every PoseWithCovariance \<open>A\<close> and every relative PoseWithCovariance \<open>r\<close>,
  the pose of \<open>between A (compose A r)\<close> is the pose of \<open>r\<close>: an identity of the group
  of poses, whatever the covariance matrices of \<open>A\<close> and \<open>r\<close> are (they decide only
  which covariance \<open>between\<close> returns).
\<close>

theorem between_recovers_relative_pose:
  assumes "group_laws L"
  shows "PoseWithCovariance.pose (between L A (compose L A r)) = PoseWithCovariance.pose r"
proof -
  let ?a = "PoseWithCovariance.pose A" and ?r = "PoseWithCovariance.pose r"
  from assms have
    assoc: "\<And>a b c. fst (compose_J L (fst (compose_J L a b)) c)
                     = fst (compose_J L a (fst (compose_J L b c)))"
    and left_id: "\<And>a. fst (compose_J L (identity L) a) = a"
    and left_inv: "\<And>a. fst (compose_J L (fst (inverse_J L a)) a) = identity L"
    and btw: "\<And>a b. fst (between_J L a b) = fst (compose_J L (fst (inverse_J L a)) b)"
    unfolding group_laws_def by blast+
  have "PoseWithCovariance.pose (between L A (compose L A r))
        = fst (between_J L ?a (fst (compose_J L ?a ?r)))"
    by (simp only: pose_between pose_compose)
  also have "\<dots> = fst (compose_J L (fst (inverse_J L ?a)) (fst (compose_J L ?a ?r)))"
    by (rule btw)
  also have "\<dots> = fst (compose_J L (fst (compose_J L (fst (inverse_J L ?a)) ?a)) ?r)"
    by (rule assoc[symmetric])
  also have "\<dots> = fst (compose_J L (identity L) ?r)"
    by (simp only: left_inv)
  also have "\<dots> = ?r"
    by (rule left_id)
  finally show ?thesis .
qed

theorem between_recovers_relative_pose_witness:
  "group_laws planar
   \<and> PoseWithCovariance.pose
       (between planar (PoseWithCovariance_basic (0, 1, 0) (identity_mat 3))
          (compose planar (PoseWithCovariance_basic (0, 1, 0) (identity_mat 3))
                          (PoseWithCovariance_basic (0, 0, 2) (zero_mat 3 3))))
     = (0, 0, 2)"
  using between_recovers_relative_pose[OF group_laws_planar,
      of "PoseWithCovariance_basic (0, 1, 0) (identity_mat 3)"
         "PoseWithCovariance_basic (0, 0, 2) (zero_mat 3 3)"]
    group_laws_planar
  by simp

section \<open>PoseWithDistance: the accumulated distance\<close>

lemma PoseWithDistance_basic_sel [simp]:
  "pose (PoseWithDistance_basic p d) = p"
  "distance (PoseWithDistance_basic p d) = d"
  by (simp_all add: PoseWithDistance_basic_def)




text \<open>
  When the call resolves to \<^verbatim>\<open>int abs(int)\<close> instead, the difference is truncated
  before the absolute value is taken: distances 1 and 3.5 give 2, not 2.5.
\<close>

lemma between_d_with_integer_abs:
  "distance (between_d (planar\<lparr>abs_call := int_abs\<rparr>)
               (PoseWithDistance_basic (0, 0, 0) (Fin 1))
               (PoseWithDistance_basic (0, 0, 0) (Fin (7 / 2)))) = Fin 2"
  by (simp add: between_d_def dsub_def int_abs_def)

section \<open>The norms\<close>

lemma wf_row_vec: "wf_mat 1 (length v) (row_vec v)"
  by (simp add: wf_mat_def row_vec_def)

lemma wf_col_vec: "wf_mat (length v) 1 (col_vec v)"
  by (simp add: wf_mat_def col_vec_def list_all_iff)

lemma coeff_row_vec: "coeff (row_vec v) 0 k = v ! k"
  by (simp add: coeff_def row_vec_def)

lemma coeff_col_vec: "k < length v \<Longrightarrow> coeff (col_vec v) k 0 = v ! k"
  by (simp add: coeff_def col_vec_def)

lemma quadratic_value:
  assumes "0 < n" "length v = n" "wf_mat n n M"
  shows "scalar_of (mmul (mmul (row_vec v) M) (col_vec v))
         = dsum (map (\<lambda>j. dmul (dsum (map (\<lambda>i. dmul (v ! i) (coeff M i j)) [0..<n])) (v ! j))
                   [0..<n])"
proof -
  have r: "wf_mat 1 n (row_vec v)" and c: "wf_mat n 1 (col_vec v)"
    using wf_row_vec[of v] wf_col_vec[of v] assms(2) by simp_all
  have rm: "wf_mat 1 n (mmul (row_vec v) M)"
    using r assms(3,1) by (rule wf_mmul)
  have "scalar_of (mmul (mmul (row_vec v) M) (col_vec v))
        = dsum (map (\<lambda>j. dmul (coeff (mmul (row_vec v) M) 0 j) (coeff (col_vec v) j 0)) [0..<n])"
    unfolding scalar_of_def using rm c assms(1) by (intro coeff_mmul[where r=1 and c=1]) simp_all
  also have "\<dots> = dsum (map (\<lambda>j. dmul (dsum (map (\<lambda>i. dmul (v ! i) (coeff M i j)) [0..<n])) (v ! j))
                   [0..<n])"
    using r assms
    by (intro arg_cong[where f=dsum] map_cong refl)
       (simp add: coeff_mmul[where r=1 and k=n and c=n] coeff_row_vec coeff_col_vec)
  finally show ?thesis .
qed

lemma squared_length_value:
  assumes "v \<noteq> []"
  shows "scalar_of (mmul (row_vec v) (col_vec v)) = dsum (map (\<lambda>x. dmul x x) v)"
proof -
  let ?n = "length v"
  have n: "0 < ?n" using assms by simp
  have "scalar_of (mmul (row_vec v) (col_vec v))
        = dsum (map (\<lambda>k. dmul (coeff (row_vec v) 0 k) (coeff (col_vec v) k 0)) [0..<?n])"
    unfolding scalar_of_def using wf_row_vec[of v] wf_col_vec[of v] n
    by (intro coeff_mmul[where r=1 and c=1]) simp_all
  also have "\<dots> = dsum (map (\<lambda>k. (\<lambda>x. dmul x x) (v ! k)) [0..<?n])"
    by (intro arg_cong[where f=dsum] map_cong refl) (simp add: coeff_row_vec coeff_col_vec)
  also have "map (\<lambda>k. (\<lambda>x. dmul x x) (v ! k)) [0..<?n] = map (\<lambda>x. dmul x x) (map ((!) v) [0..<?n])"
    by (simp add: comp_def)
  also have "map ((!) v) [0..<?n] = v"
    by (rule map_nth)
  finally show ?thesis .
qed

text \<open>
  Claim C4. For every PoseWithCovariance \<open>A\<close>, \<open>norm A\<close> is the Mahalanobis norm
  \<open>sqrt (log\<^sup>t \<cdot> Cov\<^sub>A\<inverse> \<cdot> log)\<close> of \<open>log = Logmap A.pose\<close>, where \<open>Cov\<^sub>A\<inverse>\<close> is what
  \<^verbatim>\<open>gtsam::inverse\<close> returns and is the inverse of the covariance of \<open>A\<close>; for every
  PoseWithDistance \<open>D\<close>, \<open>norm D\<close> is the Euclidean norm of the logarithm map divided by
  the distance of \<open>D\<close>.
\<close>

theorem norm_values:
  assumes "0 < dimension L" "logmap_wf L"
    and "is_inverse (dimension L) (inverse_mat L (covariance_matrix A)) (covariance_matrix A)"
  shows "norm_c L A = mahalanobis (dimension L) (Logmap L (PoseWithCovariance.pose A))
                        (inverse_mat L (covariance_matrix A))
       \<and> norm_d L D = ddiv (euclidean_norm (Logmap L (pose D))) (distance D)"
proof -
  have la: "length (Logmap L (PoseWithCovariance.pose A)) = dimension L"
    and ld': "length (Logmap L (pose D)) = dimension L"
    using assms(2) by (simp_all add: logmap_wf_def)
  from ld' assms(1) have ld: "Logmap L (pose D) \<noteq> []" by auto
  have w: "wf_mat (dimension L) (dimension L) (inverse_mat L (covariance_matrix A))"
    using assms(3) by (simp add: is_inverse_def)
  show ?thesis
    by (simp add: norm_c_def norm_d_def Let_def mahalanobis_def euclidean_norm_def
        quadratic_value[OF assms(1) la w] squared_length_value[OF ld])
qed

lemma logmap_wf_planar: "logmap_wf planar"
  by (auto simp: logmap_wf_def planar_Logmap_def Let_def)

lemma inverse3_identity: "inverse3 (identity_mat 3) = identity_mat 3"
  by (simp add: identity_mat_3 inverse3_def dsub_def Let_def)

lemma mmul_identity_3: "mmul (identity_mat 3) (identity_mat 3) = identity_mat 3"
  by (simp add: identity_mat_3 mmul_def mat_of_def rows_def cols_def coeff_def dsum_def upt3)

lemma is_inverse_identity_3: "is_inverse 3 (inverse3 (identity_mat 3)) (identity_mat 3)"
  by (simp add: is_inverse_def inverse3_identity mmul_identity_3 wf_identity_mat)

theorem norm_values_witness:
  "0 < dimension planar \<and> logmap_wf planar
   \<and> is_inverse (dimension planar)
        (inverse_mat planar (covariance_matrix (PoseWithCovariance_basic ((0, 1, 2) :: planar) (identity_mat 3))))
        (covariance_matrix (PoseWithCovariance_basic ((0, 1, 2) :: planar) (identity_mat 3)))
   \<and> norm_c planar (PoseWithCovariance_basic (0, 1, 2) (identity_mat 3))
       = mahalanobis 3 [Fin 0, Fin 1, Fin 2] (identity_mat 3)
   \<and> mahalanobis 3 [Fin 0, Fin 1, Fin 2] (identity_mat 3) = Fin (sqrt 5)
   \<and> norm_d planar (PoseWithDistance_basic (0, 1, 0) (Fin 2)) = Fin (1 / 2)"
proof -
  let ?A = "PoseWithCovariance_basic (0, 1, 2) (identity_mat 3) :: planar PoseWithCovariance"
  let ?D = "PoseWithDistance_basic (0, 1, 0) (Fin 2) :: planar PoseWithDistance"
  have h1: "0 < dimension planar" by simp
  have h3: "is_inverse (dimension planar) (inverse_mat planar (covariance_matrix ?A))
              (covariance_matrix ?A)"
    by (simp add: is_inverse_identity_3)
  note t = norm_values[OF h1 logmap_wf_planar h3, of ?D]
  have m: "mahalanobis 3 [Fin 0, Fin 1, Fin 2] (identity_mat 3) = Fin (sqrt 5)"
    by (simp add: mahalanobis_def identity_mat_3 upt3 coeff_def dsum_def)
  have e: "euclidean_norm (planar_Logmap (0, 1, 0)) = Fin 1"
    by (simp add: euclidean_norm_def planar_Logmap_def dsum_def)
  from t have c: "norm_c planar ?A = mahalanobis 3 [Fin 0, Fin 1, Fin 2] (identity_mat 3)"
    by (simp add: inverse3_identity planar_Logmap_def)
  from t e have d: "norm_d planar ?D = Fin (1 / 2)"
    by simp
  show ?thesis
    using h1 logmap_wf_planar h3 c m d by (simp only: simp_thms)
qed

section \<open>The unchecked precondition of the norms\<close>

lemma ddiv_by_zero_not_finite: "\<not> isfinite (ddiv x (Fin 0))"
  by (cases x) simp_all

lemma dmul_zero_right: "dmul x (Fin 0) = Fin 0 \<or> dmul x (Fin 0) = NaN"
  by (cases x) simp_all

lemma dsum_zero_or_nan:
  "\<forall>x\<in>set xs. x = Fin 0 \<or> x = NaN \<Longrightarrow> dsum xs = Fin 0 \<or> dsum xs = NaN"
  by (induction xs) (auto simp: dsum_def)

lemma coeff_zero_mat [simp]: "i < r \<Longrightarrow> j < c \<Longrightarrow> coeff (zero_mat r c) i j = Fin 0"
  by (simp add: zero_mat_def)

lemma wf_zero_mat [simp]: "wf_mat r c (zero_mat r c)"
  by (simp add: zero_mat_def)

lemma coeff_identity_mat [simp]:
  "i < n \<Longrightarrow> j < n \<Longrightarrow> coeff (identity_mat n) i j = (if i = j then Fin 1 else Fin 0)"
  by (simp add: identity_mat_def)

lemma zero_mat_not_invertible:
  assumes "0 < n"
  shows "\<not> is_inverse n M (zero_mat n n)"
proof
  assume inv: "is_inverse n M (zero_mat n n)"
  then have w: "wf_mat n n M" and e: "mmul M (zero_mat n n) = identity_mat n"
    by (simp_all add: is_inverse_def)
  have "coeff (mmul M (zero_mat n n)) 0 0
        = dsum (map (\<lambda>l. dmul (coeff M 0 l) (coeff (zero_mat n n) l 0)) [0..<n])"
    using w wf_zero_mat assms assms assms assms by (rule coeff_mmul)
  also have "\<dots> = dsum (map (\<lambda>l. dmul (coeff M 0 l) (Fin 0)) [0..<n])"
    using assms by (intro arg_cong[where f=dsum] map_cong refl) simp
  finally have "coeff (mmul M (zero_mat n n)) 0 0 = Fin 0
              \<or> coeff (mmul M (zero_mat n n)) 0 0 = NaN"
    using dsum_zero_or_nan[of "map (\<lambda>l. dmul (coeff M 0 l) (Fin 0)) [0..<n]"]
      dmul_zero_right by auto
  moreover have "coeff (mmul M (zero_mat n n)) 0 0 = Fin 1"
    using assms by (simp add: e)
  ultimately show False by simp
qed

text \<open>
  Claim C10. The norms have a precondition that nothing checks. A PoseWithDistance built
  from a prior factor has distance 0, and its norm, a division by that distance, is never
  a finite number. The default and the prior-factor constructors of PoseWithCovariance
  store the all-zero covariance, which has no inverse, and the norm hands that matrix to
  the inversion routine as it is.
\<close>

theorem norm_precondition_unchecked:
  "distance (PoseWithDistance_prior f) = Fin 0
   \<and> \<not> isfinite (norm_d L (PoseWithDistance_prior f))
   \<and> covariance_matrix (PoseWithCovariance_default L) = zero_mat (dimension L) (dimension L)
   \<and> covariance_matrix (PoseWithCovariance_prior L f) = zero_mat (dimension L) (dimension L)
   \<and> (0 < dimension L \<longrightarrow>
        (\<forall>M. \<not> is_inverse (dimension L) M (zero_mat (dimension L) (dimension L))))
   \<and> norm_c L (PoseWithCovariance_prior L f)
       = dsqrt (scalar_of
           (mmul (mmul (row_vec (Logmap L (prior f)))
                       (inverse_mat L (zero_mat (dimension L) (dimension L))))
                 (col_vec (Logmap L (prior f)))))"
  by (simp add: PoseWithDistance_prior_def PoseWithCovariance_prior_def
      PoseWithCovariance_default_def getDim_def norm_d_def norm_c_def Let_def
      ddiv_by_zero_not_finite zero_mat_not_invertible)

theorem norm_precondition_unchecked_witness:
  "0 < dimension planar
   \<and> \<not> is_inverse (dimension planar) (inverse_mat planar (zero_mat 3 3)) (zero_mat 3 3)
   \<and> norm_d planar (PoseWithDistance_prior \<lparr>prior = (0, 0, 0)\<rparr>) = NaN
   \<and> norm_c planar (PoseWithCovariance_prior planar \<lparr>prior = (0, 0, 0)\<rparr>) = NaN"
proof -
  have h: "0 < dimension planar" by simp
  have a: "\<not> is_inverse (dimension planar) (inverse_mat planar (zero_mat 3 3)) (zero_mat 3 3)"
    using norm_precondition_unchecked[of "\<lparr>prior = (0, 0, 0)\<rparr>" planar] h by simp
  have b: "norm_d planar (PoseWithDistance_prior \<lparr>prior = (0, 0, 0)\<rparr>) = NaN"
    by (simp add: norm_d_def PoseWithDistance_prior_def planar_Logmap_def scalar_of_def
        mmul_def mat_of_def row_vec_def col_vec_def rows_def cols_def coeff_def dsum_def upt3)
  have c: "norm_c planar (PoseWithCovariance_prior planar \<lparr>prior = (0, 0, 0)\<rparr>) = NaN"
    by (simp add: norm_c_def PoseWithCovariance_prior_def getDim_def planar_Logmap_def
        scalar_of_def zero_mat_3 inverse3_def dsub_def Let_def
        mmul_def mat_of_def row_vec_def col_vec_def rows_def cols_def coeff_def dsum_def upt3)
  show ?thesis using h a b c by (simp only: simp_thms)
qed

section \<open>PoseWithCovariance from a between factor\<close>

lemma dsum_Nil: "dsum [] = Fin 0"
  by (simp add: dsum_def)

lemma dsum_Cons: "dsum (x # xs) = dadd x (dsum xs)"
  by (simp add: dsum_def)

lemma dsum_special:
  "(dsum xs = NaN \<longleftrightarrow> NaN \<in> set xs \<or> (PInf \<in> set xs \<and> MInf \<in> set xs))
   \<and> (dsum xs = PInf \<longleftrightarrow> NaN \<notin> set xs \<and> PInf \<in> set xs \<and> MInf \<notin> set xs)
   \<and> (dsum xs = MInf \<longleftrightarrow> NaN \<notin> set xs \<and> MInf \<in> set xs \<and> PInf \<notin> set xs)"
proof (induction xs)
  case Nil
  then show ?case by (simp add: dsum_Nil)
next
  case (Cons x xs)
  then show ?case
    by (cases x; cases "dsum xs") (auto simp: dsum_Cons)
qed

lemma dsum_nan_iff:
  "isnan (dsum xs) \<longleftrightarrow> NaN \<in> set xs \<or> (PInf \<in> set xs \<and> MInf \<in> set xs)"
  using dsum_special[of xs] by (cases "dsum xs") auto

lemma dsum_finite_iff: "isfinite (dsum xs) \<longleftrightarrow> (\<forall>x\<in>set xs. isfinite x)"
proof (induction xs)
  case Nil
  then show ?case by (simp add: dsum_Nil)
next
  case (Cons x xs)
  then show ?case
    by (cases x; cases "dsum xs") (auto simp: dsum_Cons)
qed

text \<open>
  The trace of the rotation block is NaN exactly when a diagonal entry is NaN or
  infinities of both signs meet on the diagonal, and it is finite exactly when every
  diagonal entry is: an infinite trace is not finite and not NaN.
\<close>

lemma in_set_map_upt: "x \<in> set (map f [0..<n]) \<longleftrightarrow> (\<exists>i<n. f i = x)"
  by auto

lemma trace_nan_iff:
  "isnan (trace M) \<longleftrightarrow>
     (\<exists>i<rows M. coeff M i i = NaN)
   \<or> ((\<exists>i<rows M. coeff M i i = PInf) \<and> (\<exists>i<rows M. coeff M i i = MInf))"
  unfolding trace_def dsum_nan_iff in_set_map_upt ..

lemma trace_finite_iff: "isfinite (trace M) \<longleftrightarrow> (\<forall>i<rows M. isfinite (coeff M i i))"
  by (auto simp: trace_def dsum_finite_iff)

text \<open>
  Claim C3, as amended. For every between factor with a Gaussian noise model whose
  covariance has a rotation block with NaN trace, the constructed PoseWithCovariance has a
  covariance that is zero in the rotation rows and columns and equal to the input in the
  translation block; when the trace is not NaN, finite or infinite, the covariance is the
  input unchanged. The pose is the measured one in both cases.
\<close>

theorem between_factor_nan_rotation_block:
  assumes "get_noiseModel f = Gaussian covar" "0 < dimension L"
    and "dimension L = rotation_dimension L + translation_dimension L"
    and "wf_mat (dimension L) (dimension L) covar"
  shows "\<exists>A. PoseWithCovariance_between L f = Some A
          \<and> PoseWithCovariance.pose A = measured f
          \<and> (isnan (trace (block covar 0 0 (rotation_dimension L) (rotation_dimension L))) \<longrightarrow>
               wf_mat (dimension L) (dimension L) (covariance_matrix A)
               \<and> (\<forall>i<dimension L. \<forall>j<dimension L.
                     coeff (covariance_matrix A) i j
                     = (if rotation_dimension L \<le> i \<and> rotation_dimension L \<le> j
                        then coeff covar i j else Fin 0)))
          \<and> (\<not> isnan (trace (block covar 0 0 (rotation_dimension L) (rotation_dimension L))) \<longrightarrow>
               covariance_matrix A = covar)"
proof -
  let ?n = "dimension L" and ?r = "rotation_dimension L" and ?t = "translation_dimension L"
  let ?kept = "set_block (zero_mat ?n ?n) ?r ?r ?t ?t (block covar ?r ?r ?t ?t)"
  have w: "wf_mat ?n ?n ?kept"
    using assms(2) by (simp add: set_block_def zero_mat_def)
  have e: "coeff ?kept i j = (if ?r \<le> i \<and> ?r \<le> j then coeff covar i j else Fin 0)"
    if "i < ?n" "j < ?n" for i j
  proof -
    have "coeff ?kept i j
          = (if ?r \<le> i \<and> i < ?r + ?t \<and> ?r \<le> j \<and> j < ?r + ?t
             then coeff (block covar ?r ?r ?t ?t) (i - ?r) (j - ?r)
             else coeff (zero_mat ?n ?n) i j)"
      using that assms(2) by (simp add: set_block_def zero_mat_def)
    also have "\<dots> = (if ?r \<le> i \<and> ?r \<le> j then coeff covar i j else Fin 0)"
      using that assms(3) by (auto simp: block_def zero_mat_def)
    finally show ?thesis .
  qed
  show ?thesis
    using w e assms(1)
    by (simp add: PoseWithCovariance_between_def Let_def getDim_def getRotationDim_def
        getTranslationDim_def)
qed

theorem between_factor_nan_rotation_block_witness:
  "get_noiseModel \<lparr>measured = (0, 0, 0) :: planar,
       get_noiseModel = Gaussian [[NaN, Fin 1, Fin 1], [Fin 1, Fin 1, Fin 2], [Fin 1, Fin 2, Fin 5]]\<rparr>
     = Gaussian [[NaN, Fin 1, Fin 1], [Fin 1, Fin 1, Fin 2], [Fin 1, Fin 2, Fin 5]]
   \<and> 0 < dimension planar
   \<and> dimension planar = rotation_dimension planar + translation_dimension planar
   \<and> wf_mat (dimension planar) (dimension planar)
        [[NaN, Fin 1, Fin 1], [Fin 1, Fin 1, Fin 2], [Fin 1, Fin 2, Fin 5]]
   \<and> isnan (trace (block [[NaN, Fin 1, Fin 1], [Fin 1, Fin 1, Fin 2], [Fin 1, Fin 2, Fin 5]]
                0 0 (rotation_dimension planar) (rotation_dimension planar)))
   \<and> (\<exists>A. PoseWithCovariance_between planar
              \<lparr>measured = (0, 0, 0),
               get_noiseModel =
                 Gaussian [[NaN, Fin 1, Fin 1], [Fin 1, Fin 1, Fin 2], [Fin 1, Fin 2, Fin 5]]\<rparr>
            = Some A
          \<and> coeff (covariance_matrix A) 0 0 = Fin 0
          \<and> coeff (covariance_matrix A) 0 1 = Fin 0
          \<and> coeff (covariance_matrix A) 2 0 = Fin 0
          \<and> coeff (covariance_matrix A) 2 1 = Fin 2)
   \<and> \<not> isnan (trace (block [[Fin 4, Fin 0, Fin 0], [Fin 0, Fin 1, Fin 0], [Fin 0, Fin 0, Fin 1]]
                0 0 (rotation_dimension planar) (rotation_dimension planar)))
   \<and> (\<exists>A. PoseWithCovariance_between planar
              \<lparr>measured = (0, 0, 0),
               get_noiseModel =
                 Gaussian [[Fin 4, Fin 0, Fin 0], [Fin 0, Fin 1, Fin 0], [Fin 0, Fin 0, Fin 1]]\<rparr>
            = Some A
          \<and> covariance_matrix A
            = [[Fin 4, Fin 0, Fin 0], [Fin 0, Fin 1, Fin 0], [Fin 0, Fin 0, Fin 1]])"
proof -
  let ?C = "[[NaN, Fin 1, Fin 1], [Fin 1, Fin 1, Fin 2], [Fin 1, Fin 2, Fin 5]]"
  let ?D = "[[Fin 4, Fin 0, Fin 0], [Fin 0, Fin 1, Fin 0], [Fin 0, Fin 0, Fin 1]]"
  let ?f = "\<lparr>measured = (0, 0, 0) :: planar, get_noiseModel = Gaussian ?C\<rparr>"
  let ?g = "\<lparr>measured = (0, 0, 0) :: planar, get_noiseModel = Gaussian ?D\<rparr>"
  have h1: "get_noiseModel ?f = Gaussian ?C" and g1: "get_noiseModel ?g = Gaussian ?D" by simp_all
  have h2: "0 < dimension planar" by simp
  have h3: "dimension planar = rotation_dimension planar + translation_dimension planar" by simp
  have h4: "wf_mat (dimension planar) (dimension planar) ?C"
    and g4: "wf_mat (dimension planar) (dimension planar) ?D"
    by (simp_all add: wf_mat_def)
  have n: "isnan (trace (block ?C 0 0 (rotation_dimension planar) (rotation_dimension planar)))"
    by (simp add: trace_def block_def mat_of_def rows_def coeff_def dsum_def)
  have m: "\<not> isnan (trace (block ?D 0 0 (rotation_dimension planar) (rotation_dimension planar)))"
    by (simp add: trace_def block_def mat_of_def rows_def coeff_def dsum_def)
  from between_factor_nan_rotation_block[OF h1 h2 h3 h4] n
  have a: "\<exists>A. PoseWithCovariance_between planar ?f = Some A
          \<and> coeff (covariance_matrix A) 0 0 = Fin 0
          \<and> coeff (covariance_matrix A) 0 1 = Fin 0
          \<and> coeff (covariance_matrix A) 2 0 = Fin 0
          \<and> coeff (covariance_matrix A) 2 1 = Fin 2"
    by (auto simp: coeff_def)
  from between_factor_nan_rotation_block[OF g1 h2 h3 g4] m
  have b: "\<exists>A. PoseWithCovariance_between planar ?g = Some A \<and> covariance_matrix A = ?D"
    by auto
  show ?thesis
    using h1 h2 h3 h4 n a m b by (simp only: simp_thms)
qed

text \<open>
  Claim C3 as stated, with "non-finite trace", fails: a rotation block whose trace is
  \<open>+\<infinity>\<close> has a non-finite trace that is not NaN, and the constructor keeps the
  covariance as it is, the infinite entry of the rotation block included.
\<close>

theorem between_factor_infinite_trace_counterexample:
  "\<not> isfinite (trace (block [[PInf, Fin 0, Fin 0], [Fin 0, Fin 1, Fin 0], [Fin 0, Fin 0, Fin 1]]
                   0 0 (getRotationDim planar) (getRotationDim planar)))
   \<and> map_option covariance_matrix
        (PoseWithCovariance_between planar
           \<lparr>measured = (0, 0, 0),
            get_noiseModel =
              Gaussian [[PInf, Fin 0, Fin 0], [Fin 0, Fin 1, Fin 0], [Fin 0, Fin 0, Fin 1]]\<rparr>)
      = Some [[PInf, Fin 0, Fin 0], [Fin 0, Fin 1, Fin 0], [Fin 0, Fin 0, Fin 1]]
   \<and> coeff [[PInf, Fin 0, Fin 0], [Fin 0, Fin 1, Fin 0], [Fin 0, Fin 0, Fin 1]] 0 0 \<noteq> Fin 0"
  by (simp add: PoseWithCovariance_between_def Let_def getDim_def getRotationDim_def
      getTranslationDim_def trace_def block_def mat_of_def rows_def coeff_def dsum_def)

section \<open>PoseWithCovariance: between\<close>

text \<open>
  Claim C2, as amended. For every pair of PoseWithCovariance values \<open>A\<close> and \<open>B\<close>,
  \<open>between A B\<close> has the pose \<open>A.pose.between(B.pose)\<close>; its covariance is
  \<open>Cov\<^sub>B - J \<cdot> Cov\<^sub>A \<cdot> J\<^sup>t\<close> unless the Cholesky factorisation of that matrix reports a
  numerical issue, and then it is \<open>Cov\<^sub>A - J' \<cdot> Cov\<^sub>B \<cdot> J'\<^sup>t\<close>, with \<open>J'\<close> the Jacobian of
  the relative pose in the opposite direction. Only the covariance is recomputed: the
  pose is not, and nothing is inverted. No message is logged on any path, and the result
  is returned whatever the second factorisation would say.
\<close>

theorem between_checks_then_swaps_covariance:
  "PoseWithCovariance.pose (between L A B)
     = fst (between_J L (PoseWithCovariance.pose A) (PoseWithCovariance.pose B))
   \<and> covariance_matrix (between L A B)
     = (if llt_info L (relative_covariance L A B) = NumericalIssue
        then relative_covariance L B A else relative_covariance L A B)
   \<and> between_run L A B = (between L A B, [])"
  by (simp add: between_def between_run_def relative_covariance_def Let_def split: prod.splits)

lemmas planar_eval =
  planar_compose_def planar_inverse_def planar_Adjoint_def mneg_def identity_mat_3 zero_mat_3
  mmul_def msub_def mtranspose_def mat_of_def upt3 rows_def cols_def coeff_def dsum_def dsub_def
  llt_model_def Let_def relative_covariance_def inverse_def PoseWithCovariance_basic_def

lemma relative_covariance_example:
  "relative_covariance planar
      (PoseWithCovariance_basic (0, 0, 0) [[Fin 1, Fin 0, Fin 0], [Fin 0, Fin 0, Fin 0], [Fin 0, Fin 0, Fin 0]])
      (PoseWithCovariance_basic (0, 1, 0) [[Fin 0, Fin 0, Fin 0], [Fin 0, Fin 1, Fin 0], [Fin 0, Fin 0, Fin 0]])
   = [[Fin (- 1), Fin 0, Fin (- 1)], [Fin 0, Fin 1, Fin 0], [Fin (- 1), Fin 0, Fin (- 1)]]"
  by (simp add: planar_eval)

lemma relative_covariance_example_opposite:
  "relative_covariance planar
      (PoseWithCovariance_basic (0, 1, 0) [[Fin 0, Fin 0, Fin 0], [Fin 0, Fin 1, Fin 0], [Fin 0, Fin 0, Fin 0]])
      (PoseWithCovariance_basic (0, 0, 0) [[Fin 1, Fin 0, Fin 0], [Fin 0, Fin 0, Fin 0], [Fin 0, Fin 0, Fin 0]])
   = [[Fin 1, Fin 0, Fin 0], [Fin 0, Fin (- 1), Fin 0], [Fin 0, Fin 0, Fin 0]]"
  by (simp add: planar_eval)

lemma llt_model_direct: "llt_model [[Fin (- 1), Fin 0, Fin (- 1)], [Fin 0, Fin 1, Fin 0], [Fin (- 1), Fin 0, Fin (- 1)]] = NumericalIssue"
  by (simp add: planar_eval)

lemma llt_model_swapped: "llt_model [[Fin 1, Fin 0, Fin 0], [Fin 0, Fin (- 1), Fin 0], [Fin 0, Fin 0, Fin 0]] = NumericalIssue"
  by (simp add: planar_eval)

lemma llt_model_inverted: "llt_model [[Fin 1, Fin 0, Fin 1], [Fin 0, Fin (- 1), Fin 0], [Fin 1, Fin 0, Fin 1]] = NumericalIssue"
  by (simp add: planar_eval)

lemma quad_form_unit:
  assumes "k < n"
  shows "quad_form n M (\<lambda>i. if i = k then 1 else 0) = real_of (coeff M k k)"
proof -
  have "quad_form n M (\<lambda>i. if i = k then 1 else 0)
        = (\<Sum>i<n. if i = k then (\<Sum>j<n. if j = k then real_of (coeff M i j) else 0) else 0)"
    unfolding quad_form_def
    by (intro sum.cong refl) (simp add: if_distrib[where f="\<lambda>x. _ * x"] cong: if_cong)
  also have "\<dots> = real_of (coeff M k k)"
    using assms by simp
  finally show ?thesis .
qed

lemma negative_diagonal_not_psd:
  assumes "k < n" "coeff M k k = Fin a" "a < 0"
  shows "\<not> pos_semi_definite n M"
proof
  assume "pos_semi_definite n M"
  then have "0 \<le> quad_form n M (\<lambda>i. if i = k then 1 else 0)"
    by (simp add: pos_semi_definite_def)
  with assms show False by (simp add: quad_form_unit)
qed

theorem between_checks_then_swaps_covariance_witness:
  "covariance_matrix (between planar
      (PoseWithCovariance_basic (0, 0, 0) (zero_mat 3 3))
      (PoseWithCovariance_basic (0, 1, 0) (identity_mat 3))) = identity_mat 3
   \<and> llt_info planar (relative_covariance planar
      (PoseWithCovariance_basic (0, 0, 0) (zero_mat 3 3))
      (PoseWithCovariance_basic (0, 1, 0) (identity_mat 3))) = Success
   \<and> llt_info planar (relative_covariance planar
      (PoseWithCovariance_basic (0, 0, 0) [[Fin 1, Fin 0, Fin 0], [Fin 0, Fin 0, Fin 0], [Fin 0, Fin 0, Fin 0]])
      (PoseWithCovariance_basic (0, 1, 0) [[Fin 0, Fin 0, Fin 0], [Fin 0, Fin 1, Fin 0], [Fin 0, Fin 0, Fin 0]]))
     = NumericalIssue
   \<and> covariance_matrix (between planar
      (PoseWithCovariance_basic (0, 0, 0) [[Fin 1, Fin 0, Fin 0], [Fin 0, Fin 0, Fin 0], [Fin 0, Fin 0, Fin 0]])
      (PoseWithCovariance_basic (0, 1, 0) [[Fin 0, Fin 0, Fin 0], [Fin 0, Fin 1, Fin 0], [Fin 0, Fin 0, Fin 0]]))
     = [[Fin 1, Fin 0, Fin 0], [Fin 0, Fin (- 1), Fin 0], [Fin 0, Fin 0, Fin 0]]
   \<and> PoseWithCovariance.pose (between planar
      (PoseWithCovariance_basic (0, 0, 0) [[Fin 1, Fin 0, Fin 0], [Fin 0, Fin 0, Fin 0], [Fin 0, Fin 0, Fin 0]])
      (PoseWithCovariance_basic (0, 1, 0) [[Fin 0, Fin 0, Fin 0], [Fin 0, Fin 1, Fin 0], [Fin 0, Fin 0, Fin 0]]))
     = (0, 1, 0)"
proof -
  let ?A = "PoseWithCovariance_basic ((0, 0, 0) :: planar)
              [[Fin 1, Fin 0, Fin 0], [Fin 0, Fin 0, Fin 0], [Fin 0, Fin 0, Fin 0]]"
  let ?B = "PoseWithCovariance_basic ((0, 1, 0) :: planar)
              [[Fin 0, Fin 0, Fin 0], [Fin 0, Fin 1, Fin 0], [Fin 0, Fin 0, Fin 0]]"
  let ?Z = "PoseWithCovariance_basic ((0, 0, 0) :: planar) (zero_mat 3 3)"
  let ?I = "PoseWithCovariance_basic ((0, 1, 0) :: planar) (identity_mat 3)"
  have rc: "relative_covariance planar ?Z ?I = identity_mat 3"
    by (simp add: planar_eval)
  have ok: "llt_model (identity_mat 3) = Success"
    by (simp add: planar_eval)
  from between_checks_then_swaps_covariance[of planar ?Z ?I]
  have a: "covariance_matrix (between planar ?Z ?I) = identity_mat 3"
    by (simp add: rc ok)
  from between_checks_then_swaps_covariance[of planar ?A ?B]
  have b: "covariance_matrix (between planar ?A ?B)
           = [[Fin 1, Fin 0, Fin 0], [Fin 0, Fin (- 1), Fin 0], [Fin 0, Fin 0, Fin 0]]"
    and c: "PoseWithCovariance.pose (between planar ?A ?B) = (0, 1, 0)"
    by (simp_all add: relative_covariance_example relative_covariance_example_opposite llt_model_direct planar_compose_def planar_inverse_def)
  show ?thesis
    using a b c by (simp add: rc ok relative_covariance_example llt_model_direct)
qed

text \<open>
  Claim C2 as stated fails on two counts. On the input below both factorisations report a
  numerical issue and the covariance returned is indeed not positive semi-definite. The
  source returns the covariance of the opposite direction as it is and logs nothing; as
  the claim words it, the opposite relative transform would be inverted, which gives
  another covariance, and a diagnostic would be raised.
\<close>

theorem between_fallback_counterexample:
  "between_run planar
      (PoseWithCovariance_basic (0, 0, 0) [[Fin 1, Fin 0, Fin 0], [Fin 0, Fin 0, Fin 0], [Fin 0, Fin 0, Fin 0]])
      (PoseWithCovariance_basic (0, 1, 0) [[Fin 0, Fin 0, Fin 0], [Fin 0, Fin 1, Fin 0], [Fin 0, Fin 0, Fin 0]])
   = (PoseWithCovariance_basic (0, 1, 0)
        [[Fin 1, Fin 0, Fin 0], [Fin 0, Fin (- 1), Fin 0], [Fin 0, Fin 0, Fin 0]], [])
   \<and> \<not> pos_semi_definite 3 [[Fin 1, Fin 0, Fin 0], [Fin 0, Fin (- 1), Fin 0], [Fin 0, Fin 0, Fin 0]]
   \<and> between_as_specified planar
      (PoseWithCovariance_basic (0, 0, 0) [[Fin 1, Fin 0, Fin 0], [Fin 0, Fin 0, Fin 0], [Fin 0, Fin 0, Fin 0]])
      (PoseWithCovariance_basic (0, 1, 0) [[Fin 0, Fin 0, Fin 0], [Fin 0, Fin 1, Fin 0], [Fin 0, Fin 0, Fin 0]])
   = (PoseWithCovariance_basic (0, 1, 0)
        [[Fin 1, Fin 0, Fin 1], [Fin 0, Fin (- 1), Fin 0], [Fin 1, Fin 0, Fin 1]],
      [''Warning: Covariance matrix between two poses not PSD''])
   \<and> between_run planar
      (PoseWithCovariance_basic (0, 0, 0) [[Fin 1, Fin 0, Fin 0], [Fin 0, Fin 0, Fin 0], [Fin 0, Fin 0, Fin 0]])
      (PoseWithCovariance_basic (0, 1, 0) [[Fin 0, Fin 0, Fin 0], [Fin 0, Fin 1, Fin 0], [Fin 0, Fin 0, Fin 0]])
   \<noteq> between_as_specified planar
      (PoseWithCovariance_basic (0, 0, 0) [[Fin 1, Fin 0, Fin 0], [Fin 0, Fin 0, Fin 0], [Fin 0, Fin 0, Fin 0]])
      (PoseWithCovariance_basic (0, 1, 0) [[Fin 0, Fin 0, Fin 0], [Fin 0, Fin 1, Fin 0], [Fin 0, Fin 0, Fin 0]])"
proof -
  let ?A = "PoseWithCovariance_basic ((0, 0, 0) :: planar)
              [[Fin 1, Fin 0, Fin 0], [Fin 0, Fin 0, Fin 0], [Fin 0, Fin 0, Fin 0]]"
  let ?B = "PoseWithCovariance_basic ((0, 1, 0) :: planar)
              [[Fin 0, Fin 0, Fin 0], [Fin 0, Fin 1, Fin 0], [Fin 0, Fin 0, Fin 0]]"
  have code: "between_run planar ?A ?B
      = (PoseWithCovariance_basic (0, 1, 0)
           [[Fin 1, Fin 0, Fin 0], [Fin 0, Fin (- 1), Fin 0], [Fin 0, Fin 0, Fin 0]], [])"
    unfolding between_run_def by (simp add: planar_eval)
  have npsd: "\<not> pos_semi_definite 3
                 [[Fin 1, Fin 0, Fin 0], [Fin 0, Fin (- 1), Fin 0], [Fin 0, Fin 0, Fin 0]]"
    by (rule negative_diagonal_not_psd[where k=1 and a="- 1"]) (simp_all add: coeff_def)
  have inv: "inverse planar (PoseWithCovariance_basic (0, - 1, 0)
               [[Fin 1, Fin 0, Fin 0], [Fin 0, Fin (- 1), Fin 0], [Fin 0, Fin 0, Fin 0]])
             = PoseWithCovariance_basic (0, 1, 0)
                 [[Fin 1, Fin 0, Fin 1], [Fin 0, Fin (- 1), Fin 0], [Fin 1, Fin 0, Fin 1]]"
    by (simp add: planar_eval)
  have spec: "between_as_specified planar ?A ?B
      = (PoseWithCovariance_basic (0, 1, 0)
           [[Fin 1, Fin 0, Fin 1], [Fin 0, Fin (- 1), Fin 0], [Fin 1, Fin 0, Fin 1]],
         [''Warning: Covariance matrix between two poses not PSD''])"
    unfolding between_as_specified_def
    by (simp add: relative_covariance_example relative_covariance_example_opposite llt_model_direct llt_model_inverted inv planar_compose_def planar_inverse_def Let_def)
  have "between_run planar ?A ?B \<noteq> between_as_specified planar ?A ?B"
    unfolding code spec by simp
  then show ?thesis using code npsd spec by (simp only: simp_thms)
qed

section \<open>Finite matrices as real matrices\<close>

lemma dsum_map_Fin: "dsum (map Fin ys) = Fin (sum_list ys)"
  by (induction ys) (simp_all add: dsum_Nil dsum_Cons)

lemma dsum_Fin_upt: "dsum (map (\<lambda>k. Fin (f k)) [0..<n]) = Fin (\<Sum>k<n. f k)"
proof -
  have "map (\<lambda>k. Fin (f k)) [0..<n] = map Fin (map f [0..<n])" by simp
  then have "dsum (map (\<lambda>k. Fin (f k)) [0..<n]) = Fin (sum_list (map f [0..<n]))"
    by (simp only: dsum_map_Fin)
  also have "sum_list (map f [0..<n]) = (\<Sum>k<n. f k)"
    by (simp add: interv_sum_list_conv_sum_set_nat atLeast0LessThan)
  finally show ?thesis .
qed

lemma coeff_finite:
  assumes "wf_mat r c M" "finite_mat M" "i < r" "j < c"
  shows "coeff M i j = Fin (real_of (coeff M i j))"
proof -
  have "isfinite (M ! i ! j)"
    using assms by (simp add: wf_mat_def finite_mat_def list_all_length)
  then show ?thesis by (cases "M ! i ! j") (simp_all add: coeff_def)
qed

lemma finite_mat_iff:
  assumes "wf_mat r c M"
  shows "finite_mat M \<longleftrightarrow> (\<forall>i<r. \<forall>j<c. isfinite (coeff M i j))"
  using assms by (auto simp: wf_mat_def finite_mat_def list_all_length coeff_def)

lemma propagated_finite:
  assumes "wf_mat n n J" "finite_mat J" "wf_mat n n C" "finite_mat C" "i < n" "j < n"
  shows "propagated n J C i j
         = Fin (\<Sum>l<n. (\<Sum>k<n. real_of (coeff J i k) * real_of (coeff C k l))
                        * real_of (coeff J j l))"
proof -
  have inner: "dsum (map (\<lambda>k. dmul (coeff J i k) (coeff C k l)) [0..<n])
               = Fin (\<Sum>k<n. real_of (coeff J i k) * real_of (coeff C k l))" if "l < n" for l
  proof -
    have "map (\<lambda>k. dmul (coeff J i k) (coeff C k l)) [0..<n]
          = map (\<lambda>k. Fin (real_of (coeff J i k) * real_of (coeff C k l))) [0..<n]"
    proof (rule map_cong[OF refl])
      fix k assume "k \<in> set [0..<n]"
      then have k: "k < n" by simp
      have "coeff J i k = Fin (real_of (coeff J i k))"
        using assms(1,2,5) k by (rule coeff_finite)
      moreover have "coeff C k l = Fin (real_of (coeff C k l))"
        using assms(3,4) k that by (rule coeff_finite)
      ultimately show "dmul (coeff J i k) (coeff C k l)
                       = Fin (real_of (coeff J i k) * real_of (coeff C k l))"
        by (metis dmul.simps(1))
    qed
    then show ?thesis by (simp only: dsum_Fin_upt)
  qed
  have "map (\<lambda>l. dmul (dsum (map (\<lambda>k. dmul (coeff J i k) (coeff C k l)) [0..<n])) (coeff J j l))
            [0..<n]
        = map (\<lambda>l. Fin ((\<Sum>k<n. real_of (coeff J i k) * real_of (coeff C k l))
                         * real_of (coeff J j l))) [0..<n]"
  proof (rule map_cong[OF refl])
    fix l assume "l \<in> set [0..<n]"
    then have l: "l < n" by simp
    have "coeff J j l = Fin (real_of (coeff J j l))"
      using assms(1,2,6) l by (rule coeff_finite)
    then show "dmul (dsum (map (\<lambda>k. dmul (coeff J i k) (coeff C k l)) [0..<n])) (coeff J j l)
               = Fin ((\<Sum>k<n. real_of (coeff J i k) * real_of (coeff C k l))
                      * real_of (coeff J j l))"
      by (metis inner[OF l] dmul.simps(1))
  qed
  then show ?thesis
    unfolding propagated_def by (simp only: dsum_Fin_upt)
qed

section \<open>Congruence keeps a matrix positive semi-definite\<close>

lemma quad_congruence:
  fixes J C :: "nat \<Rightarrow> nat \<Rightarrow> real" and x :: "nat \<Rightarrow> real" and n :: nat
  defines "y \<equiv> \<lambda>k. \<Sum>i<n. x i * J i k"
  shows "(\<Sum>i<n. \<Sum>j<n. x i * (\<Sum>l<n. (\<Sum>k<n. J i k * C k l) * J j l) * x j)
         = (\<Sum>k<n. \<Sum>l<n. y k * C k l * y l)"
proof -
  let ?T = "\<lambda>i l. \<Sum>k<n. J i k * C k l"
  have A: "(\<Sum>j<n. x i * (\<Sum>l<n. ?T i l * J j l) * x j) = (\<Sum>l<n. x i * ?T i l * y l)" for i
  proof -
    have "(\<Sum>j<n. x i * (\<Sum>l<n. ?T i l * J j l) * x j)
          = (\<Sum>j<n. \<Sum>l<n. x i * ?T i l * (x j * J j l))"
      by (simp only: sum_distrib_left sum_distrib_right mult_ac)
    also have "\<dots> = (\<Sum>l<n. \<Sum>j<n. x i * ?T i l * (x j * J j l))"
      by (rule sum.swap)
    also have "\<dots> = (\<Sum>l<n. x i * ?T i l * y l)"
      by (simp only: y_def sum_distrib_left)
    finally show ?thesis .
  qed
  have B: "(\<Sum>i<n. x i * ?T i l) = (\<Sum>k<n. y k * C k l)" for l
  proof -
    have "(\<Sum>i<n. x i * ?T i l) = (\<Sum>i<n. \<Sum>k<n. x i * J i k * C k l)"
      by (simp only: sum_distrib_left mult.assoc)
    also have "\<dots> = (\<Sum>k<n. \<Sum>i<n. x i * J i k * C k l)"
      by (rule sum.swap)
    also have "\<dots> = (\<Sum>k<n. y k * C k l)"
      by (simp only: y_def sum_distrib_right)
    finally show ?thesis .
  qed
  have "(\<Sum>i<n. \<Sum>j<n. x i * (\<Sum>l<n. ?T i l * J j l) * x j) = (\<Sum>i<n. \<Sum>l<n. x i * ?T i l * y l)"
    by (simp only: A)
  also have "\<dots> = (\<Sum>l<n. \<Sum>i<n. x i * ?T i l * y l)"
    by (rule sum.swap)
  also have "\<dots> = (\<Sum>l<n. (\<Sum>i<n. x i * ?T i l) * y l)"
    by (simp only: sum_distrib_right)
  also have "\<dots> = (\<Sum>l<n. (\<Sum>k<n. y k * C k l) * y l)"
    by (simp only: B)
  also have "\<dots> = (\<Sum>l<n. \<Sum>k<n. y k * C k l * y l)"
    by (simp only: sum_distrib_right)
  also have "\<dots> = (\<Sum>k<n. \<Sum>l<n. y k * C k l * y l)"
    by (rule sum.swap)
  finally show ?thesis .
qed

lemma congruence_symmetric:
  fixes J C :: "nat \<Rightarrow> nat \<Rightarrow> real"
  assumes "\<And>k l. k < n \<Longrightarrow> l < n \<Longrightarrow> C k l = C l k"
  shows "(\<Sum>l<n. (\<Sum>k<n. J i k * C k l) * J j l) = (\<Sum>l<n. (\<Sum>k<n. J j k * C k l) * J i l)"
proof -
  have "(\<Sum>l<n. (\<Sum>k<n. J j k * C k l) * J i l) = (\<Sum>l<n. \<Sum>k<n. J j k * C k l * J i l)"
    by (simp only: sum_distrib_right)
  also have "\<dots> = (\<Sum>k<n. \<Sum>l<n. J j k * C k l * J i l)"
    by (rule sum.swap)
  also have "\<dots> = (\<Sum>k<n. \<Sum>l<n. J i l * C l k * J j k)"
    by (intro sum.cong refl) (simp add: assms mult_ac)
  also have "\<dots> = (\<Sum>k<n. (\<Sum>l<n. J i l * C l k) * J j k)"
    by (simp only: sum_distrib_right)
  finally show ?thesis by simp
qed

lemma psd_sandwich:
  assumes "pos_semi_definite n C" "wf_mat n n J" "finite_mat J" "0 < n"
  shows "pos_semi_definite n (mmul (mmul J C) (mtranspose J))"
proof -
  let ?S = "mmul (mmul J C) (mtranspose J)"
  let ?Jr = "\<lambda>i k. real_of (coeff J i k)" and ?Cr = "\<lambda>k l. real_of (coeff C k l)"
  let ?s = "\<lambda>i j. \<Sum>l<n. (\<Sum>k<n. ?Jr i k * ?Cr k l) * ?Jr j l"
  from assms(1) have wC: "wf_mat n n C" and fC: "finite_mat C"
    and symC: "\<And>k l. k < n \<Longrightarrow> l < n \<Longrightarrow> coeff C k l = coeff C l k"
    and quadC: "\<And>y. 0 \<le> quad_form n C y"
    by (simp_all add: pos_semi_definite_def)
  have wS: "wf_mat n n ?S"
    using assms(2) wC assms(4) by (rule wf_sandwich)
  have cS: "coeff ?S i j = Fin (?s i j)" if "i < n" "j < n" for i j
    using coeff_sandwich[OF assms(2) wC assms(4) that]
      propagated_finite[OF assms(2,3) wC fC that] by simp
  have fS: "finite_mat ?S"
    unfolding finite_mat_iff[OF wS] using cS by simp
  have symS: "coeff ?S i j = coeff ?S j i" if "i < n" "j < n" for i j
  proof -
    have "?s i j = ?s j i"
      by (rule congruence_symmetric) (simp add: symC)
    then show ?thesis using cS that by simp
  qed
  have quadS: "0 \<le> quad_form n ?S x" for x
  proof -
    have "quad_form n ?S x = (\<Sum>i<n. \<Sum>j<n. x i * ?s i j * x j)"
      unfolding quad_form_def by (intro sum.cong refl) (simp add: cS)
    also have "\<dots> = quad_form n C (\<lambda>k. \<Sum>i<n. x i * ?Jr i k)"
      unfolding quad_form_def by (rule quad_congruence)
    finally show ?thesis using quadC by simp
  qed
  show ?thesis
    unfolding pos_semi_definite_def using wS fS symS quadS by blast
qed

lemma psd_madd:
  assumes "pos_semi_definite n A" "pos_semi_definite n B" "0 < n"
  shows "pos_semi_definite n (madd A B)"
proof -
  from assms(1) have wA: "wf_mat n n A" and fA: "finite_mat A"
    and symA: "\<And>k l. k < n \<Longrightarrow> l < n \<Longrightarrow> coeff A k l = coeff A l k"
    and quadA: "\<And>y. 0 \<le> quad_form n A y"
    by (simp_all add: pos_semi_definite_def)
  from assms(2) have wB: "wf_mat n n B" and fB: "finite_mat B"
    and symB: "\<And>k l. k < n \<Longrightarrow> l < n \<Longrightarrow> coeff B k l = coeff B l k"
    and quadB: "\<And>y. 0 \<le> quad_form n B y"
    by (simp_all add: pos_semi_definite_def)
  have w: "wf_mat n n (madd A B)"
    using wA assms(3) by (rule wf_madd)
  have c: "coeff (madd A B) i j = Fin (real_of (coeff A i j) + real_of (coeff B i j))"
    if "i < n" "j < n" for i j
  proof -
    have "coeff (madd A B) i j = dadd (coeff A i j) (coeff B i j)"
      using wA assms(3) that by (rule coeff_madd)
    moreover have "coeff A i j = Fin (real_of (coeff A i j))"
      using wA fA that by (rule coeff_finite)
    moreover have "coeff B i j = Fin (real_of (coeff B i j))"
      using wB fB that by (rule coeff_finite)
    ultimately show ?thesis by (metis dadd.simps(1))
  qed
  have f: "finite_mat (madd A B)"
    unfolding finite_mat_iff[OF w] using c by simp
  have s: "coeff (madd A B) i j = coeff (madd A B) j i" if "i < n" "j < n" for i j
    using c that symA symB by simp
  have q: "0 \<le> quad_form n (madd A B) x" for x
  proof -
    have "quad_form n (madd A B) x
          = (\<Sum>i<n. \<Sum>j<n. x i * real_of (coeff A i j) * x j + x i * real_of (coeff B i j) * x j)"
      unfolding quad_form_def by (intro sum.cong refl) (simp add: c algebra_simps)
    also have "\<dots> = quad_form n A x + quad_form n B x"
      unfolding quad_form_def by (simp only: sum.distrib)
    finally show ?thesis using quadA[of x] quadB[of x] by simp
  qed
  show ?thesis
    unfolding pos_semi_definite_def using w f s q by blast
qed

section \<open>PoseWithCovariance: a pose composed with its inverse\<close>

lemma covariance_compose:
  "covariance_matrix (compose L A B)
   = madd (mmul (mmul (fst (snd (compose_J L (PoseWithCovariance.pose A) (PoseWithCovariance.pose B))))
                      (covariance_matrix A))
                (mtranspose (fst (snd (compose_J L (PoseWithCovariance.pose A) (PoseWithCovariance.pose B))))))
          (mmul (mmul (snd (snd (compose_J L (PoseWithCovariance.pose A) (PoseWithCovariance.pose B))))
                      (covariance_matrix B))
                (mtranspose (snd (snd (compose_J L (PoseWithCovariance.pose A) (PoseWithCovariance.pose B))))))"
  by (simp add: compose_def split: prod.splits)

lemma covariance_inverse:
  "covariance_matrix (inverse L A)
   = mmul (mmul (snd (inverse_J L (PoseWithCovariance.pose A))) (covariance_matrix A))
          (mtranspose (snd (inverse_J L (PoseWithCovariance.pose A))))"
  by (simp add: inverse_def split: prod.splits)

lemma finite_planar_Adjoint: "finite_mat (planar_Adjoint p)"
  by (cases p) (simp add: planar_Adjoint_def finite_mat_def)

lemma finite_mneg: "finite_mat M \<Longrightarrow> finite_mat (mneg M)"
proof -
  have "isfinite (dneg x) = isfinite x" for x by (cases x) simp_all
  then show "finite_mat M \<Longrightarrow> finite_mat (mneg M)"
    by (simp add: finite_mat_def mneg_def list_all_iff)
qed

lemma finite_identity_mat: "finite_mat (identity_mat n)"
  unfolding finite_mat_iff[OF wf_identity_mat] by simp

lemma jacobians_finite_planar: "jacobians_finite planar"
  by (simp add: jacobians_finite_def finite_planar_Adjoint finite_mneg finite_identity_mat)

lemma psd_identity_mat: "pos_semi_definite n (identity_mat n)"
proof -
  have "quad_form n (identity_mat n) x = (\<Sum>i<n. x i * x i)" for x
  proof -
    have "quad_form n (identity_mat n) x
          = (\<Sum>i<n. \<Sum>j<n. if j = i then x i * x j else 0)"
      unfolding quad_form_def by (intro sum.cong refl) simp
    also have "\<dots> = (\<Sum>i<n. x i * x i)"
      by (intro sum.cong refl) simp
    finally show ?thesis .
  qed
  then have "0 \<le> quad_form n (identity_mat n) x" for x
    by (simp add: sum_nonneg)
  then show ?thesis
    by (simp add: pos_semi_definite_def wf_identity_mat finite_identity_mat)
qed

lemma quad_form_3:
  "quad_form 3 M x
   = x 0 * real_of (coeff M 0 0) * x 0 + x 0 * real_of (coeff M 0 1) * x 1
     + x 0 * real_of (coeff M 0 2) * x 2
     + (x 1 * real_of (coeff M 1 0) * x 0 + x 1 * real_of (coeff M 1 1) * x 1
        + x 1 * real_of (coeff M 1 2) * x 2)
     + (x 2 * real_of (coeff M 2 0) * x 0 + x 2 * real_of (coeff M 2 1) * x 1
        + x 2 * real_of (coeff M 2 2) * x 2)"
  by (simp add: quad_form_def numeral_3_eq_3 numeral_2_eq_2)

lemma psd_rotation_only:
  "pos_semi_definite 3 [[Fin 1, Fin 0, Fin 0], [Fin 0, Fin 0, Fin 0], [Fin 0, Fin 0, Fin 0]]"
proof -
  have "\<forall>i<3. \<forall>j<3. coeff [[Fin 1, Fin 0, Fin 0], [Fin 0, Fin 0, Fin 0], [Fin 0, Fin 0, Fin 0]] i j
          = coeff [[Fin 1, Fin 0, Fin 0], [Fin 0, Fin 0, Fin 0], [Fin 0, Fin 0, Fin 0]] j i"
    by (simp add: coeff_def numeral_3_eq_3 less_Suc_eq)
  then show ?thesis
    by (simp add: pos_semi_definite_def wf_mat_def finite_mat_def quad_form_3 coeff_def)
qed

text \<open>
  Claim C7, as amended. For every PoseWithCovariance \<open>A\<close> whose covariance is positive
  semi-definite, \<open>compose A (inverse A)\<close> has, in exact arithmetic, the identity pose and
  a positive semi-definite covariance. Exact arithmetic is the arithmetic of this model:
  the entries are the real numbers that the formulas of \<open>compose\<close> and \<open>inverse\<close>
  denote, without the rounding of the double operations. The pose is the identity by the
  right-inverse law of the pose type; the covariance is a sum of congruences
  \<open>J \<cdot> C \<cdot> J\<^sup>t\<close> of the covariance of \<open>A\<close>, and congruences and sums keep a matrix
  positive semi-definite.
\<close>

theorem compose_with_inverse:
  assumes "group_laws L" "jacobians_wf L" "jacobians_finite L" "0 < dimension L"
    and "pos_semi_definite (dimension L) (covariance_matrix A)"
  shows "PoseWithCovariance.pose (compose L A (inverse L A)) = identity L
       \<and> pos_semi_definite (dimension L) (covariance_matrix (compose L A (inverse L A)))"
proof -
  let ?n = "dimension L" and ?a = "PoseWithCovariance.pose A"
  let ?b = "PoseWithCovariance.pose (inverse L A)"
  have "PoseWithCovariance.pose (compose L A (inverse L A))
        = fst (compose_J L ?a (fst (inverse_J L ?a)))"
    by (simp only: pose_compose pose_inverse)
  also have "\<dots> = identity L"
    using assms(1) unfolding group_laws_def by blast
  finally have p: "PoseWithCovariance.pose (compose L A (inverse L A)) = identity L" .
  have wi: "wf_mat ?n ?n (snd (inverse_J L ?a))"
    and wa: "wf_mat ?n ?n (fst (snd (compose_J L ?a ?b)))"
    and wb: "wf_mat ?n ?n (snd (snd (compose_J L ?a ?b)))"
    using assms(2) unfolding jacobians_wf_def by blast+
  have fi: "finite_mat (snd (inverse_J L ?a))"
    and fa: "finite_mat (fst (snd (compose_J L ?a ?b)))"
    and fb: "finite_mat (snd (snd (compose_J L ?a ?b)))"
    using assms(3) unfolding jacobians_finite_def by blast+
  have "pos_semi_definite ?n (covariance_matrix (inverse L A))"
    unfolding covariance_inverse using assms(5) wi fi assms(4) by (rule psd_sandwich)
  then have second: "pos_semi_definite ?n
      (mmul (mmul (snd (snd (compose_J L ?a ?b))) (covariance_matrix (inverse L A)))
            (mtranspose (snd (snd (compose_J L ?a ?b)))))"
    using wb fb assms(4) by (rule psd_sandwich)
  have first: "pos_semi_definite ?n
      (mmul (mmul (fst (snd (compose_J L ?a ?b))) (covariance_matrix A))
            (mtranspose (fst (snd (compose_J L ?a ?b)))))"
    using assms(5) wa fa assms(4) by (rule psd_sandwich)
  have "pos_semi_definite ?n (covariance_matrix (compose L A (inverse L A)))"
    unfolding covariance_compose using first second assms(4) by (rule psd_madd)
  with p show ?thesis by simp
qed

theorem compose_with_inverse_witness:
  "group_laws planar \<and> jacobians_wf planar \<and> jacobians_finite planar \<and> 0 < dimension planar
   \<and> pos_semi_definite (dimension planar)
        (covariance_matrix
           (PoseWithCovariance_basic ((0, 1 / 10, 7 / 10) :: planar)
              [[Fin 1, Fin 0, Fin 0], [Fin 0, Fin 0, Fin 0], [Fin 0, Fin 0, Fin 0]]))
   \<and> PoseWithCovariance.pose
        (compose planar
           (PoseWithCovariance_basic (0, 1 / 10, 7 / 10)
              [[Fin 1, Fin 0, Fin 0], [Fin 0, Fin 0, Fin 0], [Fin 0, Fin 0, Fin 0]])
           (inverse planar
              (PoseWithCovariance_basic (0, 1 / 10, 7 / 10)
                 [[Fin 1, Fin 0, Fin 0], [Fin 0, Fin 0, Fin 0], [Fin 0, Fin 0, Fin 0]])))
      = (0, 0, 0)
   \<and> covariance_matrix
        (compose planar
           (PoseWithCovariance_basic (0, 1 / 10, 7 / 10)
              [[Fin 1, Fin 0, Fin 0], [Fin 0, Fin 0, Fin 0], [Fin 0, Fin 0, Fin 0]])
           (inverse planar
              (PoseWithCovariance_basic (0, 1 / 10, 7 / 10)
                 [[Fin 1, Fin 0, Fin 0], [Fin 0, Fin 0, Fin 0], [Fin 0, Fin 0, Fin 0]])))
      = [[Fin 2, Fin (7 / 5), Fin (- (1 / 5))],
         [Fin (7 / 5), Fin (49 / 50), Fin (- (7 / 50))],
         [Fin (- (1 / 5)), Fin (- (7 / 50)), Fin (1 / 50)]]
   \<and> pos_semi_definite 3
        [[Fin 2, Fin (7 / 5), Fin (- (1 / 5))],
         [Fin (7 / 5), Fin (49 / 50), Fin (- (7 / 50))],
         [Fin (- (1 / 5)), Fin (- (7 / 50)), Fin (1 / 50)]]"
proof -
  let ?A = "PoseWithCovariance_basic ((0, 1 / 10, 7 / 10) :: planar)
              [[Fin 1, Fin 0, Fin 0], [Fin 0, Fin 0, Fin 0], [Fin 0, Fin 0, Fin 0]]"
  have h4: "0 < dimension planar" by simp
  have h5: "pos_semi_definite (dimension planar) (covariance_matrix ?A)"
    by (simp add: psd_rotation_only)
  have i: "inverse planar ?A
           = PoseWithCovariance_basic (0, - (1 / 10), - (7 / 10))
               [[Fin 1, Fin (7 / 10), Fin (- (1 / 10))],
                [Fin (7 / 10), Fin (49 / 100), Fin (- (7 / 100))],
                [Fin (- (1 / 10)), Fin (- (7 / 100)), Fin (1 / 100)]]"
    by (simp add: planar_eval)
  have c: "covariance_matrix (compose planar ?A (inverse planar ?A))
           = [[Fin 2, Fin (7 / 5), Fin (- (1 / 5))],
              [Fin (7 / 5), Fin (49 / 50), Fin (- (7 / 50))],
              [Fin (- (1 / 5)), Fin (- (7 / 50)), Fin (1 / 50)]]"
    unfolding i compose_def by (simp add: planar_eval madd_def)
  from compose_with_inverse[OF group_laws_planar jacobians_wf_planar jacobians_finite_planar h4 h5]
  have p: "PoseWithCovariance.pose (compose planar ?A (inverse planar ?A)) = (0, 0, 0)"
    and q: "pos_semi_definite 3 (covariance_matrix (compose planar ?A (inverse planar ?A)))"
    by simp_all
  from q have q': "pos_semi_definite 3
        [[Fin 2, Fin (7 / 5), Fin (- (1 / 5))],
         [Fin (7 / 5), Fin (49 / 50), Fin (- (7 / 50))],
         [Fin (- (1 / 5)), Fin (- (7 / 50)), Fin (1 / 50)]]"
    unfolding c .
  from group_laws_planar jacobians_wf_planar jacobians_finite_planar h4 h5 p c q'
  show ?thesis by (simp only: simp_thms)
qed

text \<open>
  The statement does not extend to the rounded result. The covariance of the witness has
  rank one and lies on the boundary of the positive semi-definite matrices: lowering its
  entry \<open>(1, 1)\<close> by any positive amount, however small, gives a matrix that is not
  positive semi-definite. The doubles the program computes carry errors of that kind,
  which is why the amended claim speaks of exact arithmetic.
\<close>

lemma compose_with_inverse_on_the_boundary:
  assumes "0 < e"
  shows "\<not> pos_semi_definite 3
           [[Fin 2, Fin (7 / 5), Fin (- (1 / 5))],
            [Fin (7 / 5), Fin (49 / 50 - e), Fin (- (7 / 50))],
            [Fin (- (1 / 5)), Fin (- (7 / 50)), Fin (1 / 50)]]"
proof
  let ?S = "[[Fin 2, Fin (7 / 5), Fin (- (1 / 5))],
            [Fin (7 / 5), Fin (49 / 50 - e), Fin (- (7 / 50))],
            [Fin (- (1 / 5)), Fin (- (7 / 50)), Fin (1 / 50)]]"
  let ?x = "\<lambda>i::nat. if i = 0 then 7 / 5 else if i = 1 then - 2 else (0::real)"
  assume "pos_semi_definite 3 ?S"
  then have "0 \<le> quad_form 3 ?S ?x"
    by (simp add: pos_semi_definite_def)
  moreover have "quad_form 3 ?S ?x = - (4 * e)"
    by (simp add: quad_form_3 coeff_def algebra_simps)
  ultimately show False using assms by simp
qed

text \<open>
  Claim C7 as stated, for every PoseWithCovariance, fails: the structure accepts any
  matrix as covariance, and \<open>between\<close> itself returns one that is not positive
  semi-definite. For that value the covariance of \<open>compose A (inverse A)\<close> has a negative
  diagonal entry.
\<close>

theorem compose_with_inverse_counterexample:
  "between planar
      (PoseWithCovariance_basic (0, 0, 0) [[Fin 1, Fin 0, Fin 0], [Fin 0, Fin 0, Fin 0], [Fin 0, Fin 0, Fin 0]])
      (PoseWithCovariance_basic (0, 1, 0) [[Fin 0, Fin 0, Fin 0], [Fin 0, Fin 1, Fin 0], [Fin 0, Fin 0, Fin 0]])
   = PoseWithCovariance_basic (0, 1, 0)
       [[Fin 1, Fin 0, Fin 0], [Fin 0, Fin (- 1), Fin 0], [Fin 0, Fin 0, Fin 0]]
   \<and> covariance_matrix
       (compose planar
          (PoseWithCovariance_basic (0, 1, 0)
             [[Fin 1, Fin 0, Fin 0], [Fin 0, Fin (- 1), Fin 0], [Fin 0, Fin 0, Fin 0]])
          (inverse planar
             (PoseWithCovariance_basic (0, 1, 0)
                [[Fin 1, Fin 0, Fin 0], [Fin 0, Fin (- 1), Fin 0], [Fin 0, Fin 0, Fin 0]])))
     = [[Fin 2, Fin 0, Fin (- 2)], [Fin 0, Fin (- 2), Fin 0], [Fin (- 2), Fin 0, Fin 2]]
   \<and> \<not> pos_semi_definite 3
         [[Fin 2, Fin 0, Fin (- 2)], [Fin 0, Fin (- 2), Fin 0], [Fin (- 2), Fin 0, Fin 2]]"
proof -
  have a: "between planar
      (PoseWithCovariance_basic (0, 0, 0) [[Fin 1, Fin 0, Fin 0], [Fin 0, Fin 0, Fin 0], [Fin 0, Fin 0, Fin 0]])
      (PoseWithCovariance_basic (0, 1, 0) [[Fin 0, Fin 0, Fin 0], [Fin 0, Fin 1, Fin 0], [Fin 0, Fin 0, Fin 0]])
   = PoseWithCovariance_basic (0, 1, 0)
       [[Fin 1, Fin 0, Fin 0], [Fin 0, Fin (- 1), Fin 0], [Fin 0, Fin 0, Fin 0]]"
    unfolding between_def between_run_def by (simp add: planar_eval)
  have i: "inverse planar
             (PoseWithCovariance_basic (0, 1, 0)
                [[Fin 1, Fin 0, Fin 0], [Fin 0, Fin (- 1), Fin 0], [Fin 0, Fin 0, Fin 0]])
           = PoseWithCovariance_basic (0, - 1, 0)
                [[Fin 1, Fin 0, Fin (- 1)], [Fin 0, Fin (- 1), Fin 0], [Fin (- 1), Fin 0, Fin 1]]"
    by (simp add: planar_eval)
  have c: "covariance_matrix
       (compose planar
          (PoseWithCovariance_basic (0, 1, 0)
             [[Fin 1, Fin 0, Fin 0], [Fin 0, Fin (- 1), Fin 0], [Fin 0, Fin 0, Fin 0]])
          (PoseWithCovariance_basic (0, - 1, 0)
                [[Fin 1, Fin 0, Fin (- 1)], [Fin 0, Fin (- 1), Fin 0], [Fin (- 1), Fin 0, Fin 1]]))
     = [[Fin 2, Fin 0, Fin (- 2)], [Fin 0, Fin (- 2), Fin 0], [Fin (- 2), Fin 0, Fin 2]]"
    unfolding compose_def by (simp add: planar_eval madd_def)
  have n: "\<not> pos_semi_definite 3
         [[Fin 2, Fin 0, Fin (- 2)], [Fin 0, Fin (- 2), Fin 0], [Fin (- 2), Fin 0, Fin 2]]"
    by (rule negative_diagonal_not_psd[where k=1 and a="- 2"]) (simp_all add: coeff_def)
  show ?thesis using a c n unfolding i by (simp only: simp_thms)
qed

end
